theory Spec2Isabelle
  imports Main "HOL-Library.Sublist"
begin

section \<open>JavaScript strings\<close>

text \<open>
  A JavaScript string is a sequence of UTF-16 code units; a code unit is modelled by its
  numeric value. \<open>js\<close> embeds an ASCII literal.
\<close>

type_synonym jsstring = "nat list"

definition js :: "string \<Rightarrow> jsstring" where
  "js s = map of_char s"

text \<open>
  The code units that \<^verbatim>\<open>String.prototype.trim\<close> strips and that \<^verbatim>\<open>\s\<close> matches:
  ECMAScript WhiteSpace and LineTerminator (TAB, LF, VT, FF, CR, SP, NBSP, U+1680,
  U+2000..U+200A, LS, PS, U+202F, U+205F, U+3000, U+FEFF).
\<close>

definition js_space :: "nat \<Rightarrow> bool" where
  "js_space c = ((9 \<le> c \<and> c \<le> 13) \<or> c = 32 \<or> c = 160 \<or> c = 5760
                 \<or> (8192 \<le> c \<and> c \<le> 8202) \<or> c = 8232 \<or> c = 8233 \<or> c = 8239
                 \<or> c = 8287 \<or> c = 12288 \<or> c = 65279)"

text \<open>\<^verbatim>\<open>\d\<close>: the ASCII digits.\<close>

definition js_digit :: "nat \<Rightarrow> bool" where
  "js_digit c = (48 \<le> c \<and> c \<le> 57)"

definition trim :: "jsstring \<Rightarrow> jsstring" where
  "trim s = rev (dropWhile js_space (rev (dropWhile js_space s)))"

text \<open>\<^verbatim>\<open>s.endsWith(t)\<close>\<close>

definition endsWith :: "jsstring \<Rightarrow> jsstring \<Rightarrow> bool" where
  "endsWith s t = suffix t s"

text \<open>
  \<^verbatim>\<open>text.replace(/@_user_\d+\s*/g, "")\<close>: scanning from the left, every occurrence of
  \<^verbatim>\<open>@_user_\<close> followed by at least one digit is removed together with all the digits and
  all the white space after them. Both quantifiers are greedy and the match never has to
  backtrack.
\<close>

definition at_user_mention :: "jsstring \<Rightarrow> bool" where
  "at_user_mention s = (take 7 s = js ''@_user_'' \<and> (case drop 7 s of [] \<Rightarrow> False | d # _ \<Rightarrow> js_digit d))"

function strip_user_mentions :: "jsstring \<Rightarrow> jsstring" where
  "strip_user_mentions [] = []"
| "strip_user_mentions (c # cs) =
     (if at_user_mention (c # cs)
      then strip_user_mentions (dropWhile js_space (dropWhile js_digit (drop 7 (c # cs))))
      else c # strip_user_mentions cs)"
  by pat_completeness auto
termination
proof (relation "measure length")
  show "wf (measure length)" by simp
next
  fix c :: nat and cs :: "nat list"
  have "length (dropWhile js_space (dropWhile js_digit (drop 7 (c # cs))))
          \<le> length (drop 7 (c # cs))"
    using length_dropWhile_le le_trans by blast
  then show "(dropWhile js_space (dropWhile js_digit (drop 7 (c # cs))), c # cs) \<in> measure length"
    by simp
next
  fix c :: nat and cs :: "nat list"
  show "(cs, c # cs) \<in> measure length" by simp
qed

text \<open>JavaScript truthiness of an optional string: \<^verbatim>\<open>undefined\<close> and \<^verbatim>\<open>""\<close> are falsy.\<close>

fun truthy :: "jsstring option \<Rightarrow> bool" where
  "truthy None = False"
| "truthy (Some s) = (s \<noteq> [])"

section \<open>The SDK domain resolver\<close>

text \<open>\<^verbatim>\<open>Lark.Domain\<close>, the SDK's enumeration of the two platforms.\<close>

datatype lark_domain = Feishu | Lark

text \<open>\<^verbatim>\<open>resolveLarkDomain\<close> of \<^verbatim>\<open>lark-domain.ts\<close> (the shared resolver).\<close>

definition resolveLarkDomain :: "jsstring option \<Rightarrow> lark_domain" where
  "resolveLarkDomain domain = (if domain = Some (js ''lark'') then Lark else Feishu)"

text \<open>The private \<^verbatim>\<open>resolveLarkDomain\<close> of the provider file.\<close>

definition resolveLarkDomain_provider :: "jsstring option \<Rightarrow> lark_domain" where
  "resolveLarkDomain_provider domain = (if domain = Some (js ''lark'') then Lark else Feishu)"

section \<open>Configuration and accounts\<close>

text \<open>
  \<^verbatim>\<open>FeishuGroupConfig\<close>, \<^verbatim>\<open>FeishuAccountConfig\<close> and \<^verbatim>\<open>ResolvedFeishuAccount\<close>: the fields
  declared in the type definitions together with the ones the provider reads. An optional
  field is an \<open>option\<close>; display-only fields (name, enabled, dmPolicy, allowFrom,
  mediaMaxMb, tokenSource) are read nowhere in the provider and are left out.
\<close>

record FeishuGroupConfig =
  group_requireMention :: "bool option"

record FeishuAccountConfig =
  thinkingThresholdMs :: "int option"
  botNames :: "jsstring list option"
  connectionMode :: "jsstring option"
  domain :: "jsstring option"
  encryptKey :: "jsstring option"
  verificationToken :: "jsstring option"
  webhookPort :: "int option"
  webhookPath :: "jsstring option"
  groups :: "(jsstring \<times> FeishuGroupConfig) list option"
  requireMention :: "bool option"

record ResolvedFeishuAccount =
  accountId :: jsstring
  appId :: jsstring
  appSecret :: jsstring
  config :: FeishuAccountConfig

section \<open>Observable effects\<close>

text \<open>
  The outcome of an awaited platform call: the promise resolves, or it rejects with an
  error whose message is carried along. The handler ignores every resolved value.
\<close>

datatype api_result = ApiOk | ApiFails jsstring

text \<open>The four senders imported from the send module, with their arguments.\<close>

datatype api_call =
    SendText jsstring jsstring
  | UpdateMessage jsstring jsstring
  | DeleteMessage jsstring
  | SendMedia jsstring jsstring jsstring

datatype status_patch = LastInboundAt | LastOutboundAt

text \<open>The inbound context handed to the host's reply dispatcher (the fields that vary).\<close>

record inbound_ctx =
  Body :: jsstring
  From :: jsstring
  To :: jsstring
  SessionKey :: jsstring
  AccountId :: jsstring
  MessageSid :: "jsstring option"
  ChatType :: jsstring

text \<open>
  What one handler invocation does to the outside world, in the order it happens.
  \<open>CreatePlaceholder chat\<close> is the start of \<^verbatim>\<open>client.im.message.create\<close> with the
  "thinking" text; its result arrives later. \<open>Api call result\<close> is an awaited sender call
  with its outcome. \<open>DispatchReply\<close> is the invocation of
  \<^verbatim>\<open>dispatchReplyWithBufferedBlockDispatcher\<close>. Status patches carry a wall-clock time in
  the source, which is not modelled.
\<close>

datatype effect =
    CreatePlaceholder jsstring
  | Api api_call api_result
  | LogInfo jsstring
  | LogError jsstring
  | Status status_patch
  | DispatchReply inbound_ctx

section \<open>The state of one handler invocation\<close>

text \<open>
  The timer of \<^verbatim>\<open>setTimeout\<close>: never scheduled (\<^verbatim>\<open>null\<close>), scheduled and waiting,
  cleared before it fired, fired with its callback suspended at
  \<^verbatim>\<open>await ctx.client.im.message.create(...)\<close>, or fired with its callback finished.
\<close>

datatype timer_state = NoTimer | Armed | Cleared | Creating | Finished

text \<open>
  The two local variables \<^verbatim>\<open>placeholderId\<close> and \<^verbatim>\<open>done\<close> (here \<open>done_flag\<close>), the
  timer, and the effects so far.
\<close>

record hstate =
  placeholderId :: jsstring
  done_flag :: bool
  timer :: timer_state
  effects :: "effect list"

record MessageHandlerContext =
  ctx_account :: ResolvedFeishuAccount
  ctx_thinkingThresholdMs :: int
  ctx_botNames :: "jsstring list option"
  ctx_statusSink :: bool

definition initial :: hstate where
  "initial = \<lparr>placeholderId = [], done_flag = False, timer = NoTimer, effects = []\<rparr>"

definition emit :: "effect \<Rightarrow> hstate \<Rightarrow> hstate" where
  "emit e s = s\<lparr>effects := effects s @ [e]\<rparr>"

definition api :: "api_call \<Rightarrow> api_result \<Rightarrow> hstate \<Rightarrow> hstate" where
  "api c r s = emit (Api c r) s"

text \<open>\<^verbatim>\<open>ctx.statusSink?.(patch)\<close>: nothing happens without a sink.\<close>

definition status :: "MessageHandlerContext \<Rightarrow> status_patch \<Rightarrow> hstate \<Rightarrow> hstate" where
  "status ctx p s = (if ctx_statusSink ctx then emit (Status p) s else s)"

text \<open>The prefix \<^verbatim>\<open>[feishu:${accountId}] \<close> of every log line.\<close>

definition tag :: "jsstring \<Rightarrow> jsstring" where
  "tag acc = js ''[feishu:'' @ acc @ js ''] ''"

text \<open>\<^verbatim>\<open>done = true; if (timer) clearTimeout(timer);\<close>: a timer that already fired is not affected.\<close>

fun clearTimeout :: "timer_state \<Rightarrow> timer_state" where
  "clearTimeout Armed = Cleared"
| "clearTimeout t = t"

definition finish :: "hstate \<Rightarrow> hstate" where
  "finish s = s\<lparr>done_flag := True, timer := clearTimeout (timer s)\<rparr>"

subsection \<open>The timer callback\<close>

text \<open>
  The timeout elapses: the callback runs up to its \<^verbatim>\<open>await\<close>. It returns at once when
  \<^verbatim>\<open>done\<close> is set; otherwise it starts the create call and is suspended. A timer that is
  not waiting does not fire.
\<close>

definition timer_fires :: "jsstring \<Rightarrow> hstate \<Rightarrow> hstate" where
  "timer_fires chatId s =
     (if timer s \<noteq> Armed then s
      else if done_flag s then s\<lparr>timer := Finished\<rparr>
      else emit (CreatePlaceholder chatId) (s\<lparr>timer := Creating\<rparr>))"

text \<open>
  The create call settles and the callback resumes: a thrown error is ignored, a result
  is read with \<^verbatim>\<open>res?.data?.message_id ?? ""\<close> (\<open>None\<close> is a result without id).
\<close>

datatype create_result = CreateThrows | CreateReturns "jsstring option"

definition create_settles :: "create_result \<Rightarrow> hstate \<Rightarrow> hstate" where
  "create_settles r s =
     (if timer s \<noteq> Creating then s
      else case r of
             CreateThrows \<Rightarrow> s\<lparr>timer := Finished\<rparr>
           | CreateReturns mid \<Rightarrow>
               s\<lparr>timer := Finished, placeholderId := (case mid of None \<Rightarrow> [] | Some i \<Rightarrow> i)\<rparr>)"

subsection \<open>The deliver callback\<close>

text \<open>
  The payload is a string or an object with optional \<^verbatim>\<open>text\<close>, \<^verbatim>\<open>body\<close>, \<^verbatim>\<open>mediaUrl\<close>
  and \<^verbatim>\<open>mediaUrls\<close>; the optional chaining also accepts \<^verbatim>\<open>null\<close> and \<^verbatim>\<open>undefined\<close>.
\<close>

record reply_object =
  p_text :: "jsstring option"
  p_body :: "jsstring option"
  p_mediaUrl :: "jsstring option"
  p_mediaUrls :: "jsstring list option"

datatype payload = PString jsstring | PObject reply_object | PNullish

fun replyText_of :: "payload \<Rightarrow> jsstring" where
  "replyText_of (PString s) = s"
| "replyText_of PNullish = []"
| "replyText_of (PObject p) =
     (case p_text p of Some t \<Rightarrow> t
      | None \<Rightarrow> (case p_body p of Some b \<Rightarrow> b | None \<Rightarrow> []))"

fun mediaUrl_of :: "payload \<Rightarrow> jsstring option" where
  "mediaUrl_of (PString s) = None"
| "mediaUrl_of PNullish = None"
| "mediaUrl_of (PObject p) =
     (case p_mediaUrl p of Some u \<Rightarrow> Some u
      | None \<Rightarrow> (case p_mediaUrls p of Some (u # us) \<Rightarrow> Some u | _ \<Rightarrow> None))"

text \<open>The guard of the "Skip empty / NO_REPLY" branch.\<close>

definition skip_reply :: "jsstring \<Rightarrow> jsstring option \<Rightarrow> bool" where
  "skip_reply trimmed mediaUrl =
     ((trimmed = [] \<or> trimmed = js ''NO_REPLY'' \<or> endsWith trimmed (js ''NO_REPLY''))
      \<and> \<not> truthy mediaUrl)"

datatype completion = Resolved | Rejected jsstring

text \<open>
  An awaited sender call inside the \<^verbatim>\<open>try\<close> of deliver: when it resolves the rest of the
  block \<open>k\<close> runs, when it rejects the \<^verbatim>\<open>catch\<close> logs "Failed to send reply" and the rest
  of the block is skipped.
\<close>

definition try_call ::
  "MessageHandlerContext \<Rightarrow> api_call \<Rightarrow> api_result \<Rightarrow> (hstate \<Rightarrow> hstate) \<Rightarrow> hstate \<Rightarrow> hstate" where
  "try_call ctx c r k s =
     (case r of
        ApiOk \<Rightarrow> k (api c r s)
      | ApiFails e \<Rightarrow>
          emit (LogError (tag (accountId (ctx_account ctx)) @ js ''Failed to send reply: '' @ e))
               (api c r s))"

text \<open>
  \<open>r1\<close> and \<open>r2\<close> are the outcomes of the first and the second sender call that this
  invocation awaits (at most two: delete, then media). The result says whether the
  callback's promise rejects, which only a failing delete in the skip branch causes.
\<close>

definition deliver ::
  "MessageHandlerContext \<Rightarrow> jsstring \<Rightarrow> payload \<Rightarrow> api_result \<Rightarrow> api_result \<Rightarrow> hstate
     \<Rightarrow> completion \<times> hstate" where
  "deliver ctx chatId p r1 r2 s0 =
     (let s = finish s0;
          replyText = replyText_of p;
          mediaUrl = mediaUrl_of p;
          trimmed = trim replyText
      in if skip_reply trimmed mediaUrl then
           (if placeholderId s \<noteq> [] then
              (case r1 of ApiOk \<Rightarrow> Resolved | ApiFails e \<Rightarrow> Rejected e,
               api (DeleteMessage (placeholderId s)) r1 s)
            else (Resolved, s))
         else
           (Resolved,
            let s' = status ctx LastOutboundAt s in
            case (if truthy mediaUrl then mediaUrl else None) of
              Some url \<Rightarrow>
                if placeholderId s' \<noteq> [] then
                  try_call ctx (DeleteMessage (placeholderId s')) r1
                    (\<lambda>t. try_call ctx (SendMedia chatId url replyText) r2 id
                            (t\<lparr>placeholderId := []\<rparr>)) s'
                else try_call ctx (SendMedia chatId url replyText) r1 id s'
            | None \<Rightarrow>
                if placeholderId s' \<noteq> [] then
                  try_call ctx (UpdateMessage (placeholderId s') replyText) r1
                    (\<lambda>t. t\<lparr>placeholderId := []\<rparr>) s'
                else try_call ctx (SendText chatId replyText) r1 id s'))"

subsection \<open>The onError callback and the catch block\<close>

text \<open>
  onError deletes without awaiting and swallows a failure (\<^verbatim>\<open>.catch(() => {})\<close>); \<open>r\<close> is
  the outcome of that delete.
\<close>

definition onError :: "MessageHandlerContext \<Rightarrow> jsstring \<Rightarrow> api_result \<Rightarrow> hstate \<Rightarrow> hstate" where
  "onError ctx err r s0 =
     (let s = emit (LogError (tag (accountId (ctx_account ctx)) @ js ''Dispatcher error: '' @ err))
                   (finish s0)
      in if placeholderId s \<noteq> [] then api (DeleteMessage (placeholderId s)) r s else s)"

text \<open>
  The \<^verbatim>\<open>catch\<close> around the dispatch call awaits its delete, so a failing delete makes
  the handler's own promise reject.
\<close>

definition dispatch_catch ::
  "MessageHandlerContext \<Rightarrow> jsstring \<Rightarrow> api_result \<Rightarrow> hstate \<Rightarrow> completion \<times> hstate" where
  "dispatch_catch ctx err r s0 =
     (let s = emit (LogError (tag (accountId (ctx_account ctx)) @ js ''Dispatch error: '' @ err))
                   (finish s0)
      in if placeholderId s \<noteq> [] then
           (case r of ApiOk \<Rightarrow> Resolved | ApiFails e \<Rightarrow> Rejected e,
            api (DeleteMessage (placeholderId s)) r s)
         else (Resolved, s))"

subsection \<open>Schedules\<close>

text \<open>
  The handler is asynchronous: while the dispatch call is pending, the event loop runs the
  timer callback, the continuation of the create call, and the callbacks that the
  dispatcher invokes, in an order the handler does not control. A schedule lists them in
  the order they run; each dispatcher callback runs to completion before the next event,
  with the outcomes of the calls it awaits attached.
\<close>

datatype timer_event = TimerFires | CreateSettles create_result

datatype event =
    Timer timer_event
  | Deliver payload api_result api_result
  | OnError jsstring api_result

fun timer_step :: "jsstring \<Rightarrow> timer_event \<Rightarrow> hstate \<Rightarrow> hstate" where
  "timer_step chatId TimerFires s = timer_fires chatId s"
| "timer_step chatId (CreateSettles r) s = create_settles r s"

fun step :: "MessageHandlerContext \<Rightarrow> jsstring \<Rightarrow> event \<Rightarrow> hstate \<Rightarrow> hstate" where
  "step ctx chatId (Timer e) s = timer_step chatId e s"
| "step ctx chatId (Deliver p r1 r2) s = snd (deliver ctx chatId p r1 r2 s)"
| "step ctx chatId (OnError err r) s = onError ctx err r s"

fun run :: "MessageHandlerContext \<Rightarrow> jsstring \<Rightarrow> event list \<Rightarrow> hstate \<Rightarrow> hstate" where
  "run ctx chatId [] s = s"
| "run ctx chatId (e # es) s = run ctx chatId es (step ctx chatId e s)"

text \<open>What happens after the handler has returned: only the timer is left.\<close>

fun later :: "jsstring \<Rightarrow> timer_event list \<Rightarrow> hstate \<Rightarrow> hstate" where
  "later chatId [] s = s"
| "later chatId (e # es) s = later chatId es (timer_step chatId e s)"

text \<open>The dispatch call resolves, or it throws and the \<^verbatim>\<open>catch\<close> runs with the outcome of its delete.\<close>

datatype dispatch_end = DispatchResolves | DispatchRejects jsstring api_result

record schedule =
  during :: "event list"
  ending :: dispatch_end

section \<open>Inbound events\<close>

text \<open>
  The \<^verbatim>\<open>content\<close> of a message is a JSON document. \<^verbatim>\<open>JSON.parse\<close> is the language's own
  function and is modelled by its outcome: \<open>Unparsable\<close> when parsing, reading \<^verbatim>\<open>.text\<close>
  or trimming throws (the \<^verbatim>\<open>catch\<close> returns), \<open>Parsed t\<close> with the \<^verbatim>\<open>text\<close> member
  otherwise (\<open>None\<close> when it is absent).
\<close>

datatype parsed_content = Unparsable | Parsed "jsstring option"

text \<open>
  The members of \<^verbatim>\<open>data.message\<close> that the handler reads. A missing or empty \<^verbatim>\<open>content\<close>
  is \<open>None\<close>; \<open>mentions\<close> is \<open>Some\<close> when it is an array, whose elements (\<^verbatim>\<open>unknown\<close> in
  the source) have the type \<open>'m\<close>.
\<close>

record 'm message =
  chat_id :: "jsstring option"
  message_id :: "jsstring option"
  message_type :: "jsstring option"
  content :: "parsed_content option"
  chat_type :: "jsstring option"
  mentions :: "'m list option"

record 'm event_data =
  message :: "'m message option"
  sender_open_id :: "jsstring option"

text \<open>
  The collaborators imported from modules that are not part of the sources at hand and
  that the handler only calls: the group filter \<^verbatim>\<open>shouldRespondInGroup(text, mentions,
  botNames)\<close> and the runtime lookup (whether
  \<^verbatim>\<open>channel.reply.dispatchReplyWithBufferedBlockDispatcher\<close> exists).
\<close>

record 'm env =
  shouldRespondInGroup :: "jsstring \<Rightarrow> 'm list \<Rightarrow> jsstring list option \<Rightarrow> bool"
  dispatcherAvailable :: bool

text \<open>
  Modelled from the spec: \<^verbatim>\<open>isDuplicate\<close> of the dedup module, which is missing from the
  sources. The spec: "Dedup: suppressing repeated processing of an already-seen message
  id", "a message id is deduplicated at-most-once within the in-memory dedup window". The
  cache is the list of the ids seen within the window; an id in it is a duplicate, a new
  id is remembered, an event without id is never a duplicate.
\<close>

definition isDuplicate :: "jsstring option \<Rightarrow> jsstring list \<Rightarrow> bool \<times> jsstring list" where
  "isDuplicate messageId seen =
     (case messageId of
        None \<Rightarrow> (False, seen)
      | Some m \<Rightarrow> if m \<in> set seen then (True, seen) else (False, m # seen))"

section \<open>The handler\<close>

text \<open>
  From the message type check to the group filter: the text that goes on to the
  dispatcher, or \<open>None\<close> where the handler returns.
\<close>

definition inbound_text :: "'m env \<Rightarrow> MessageHandlerContext \<Rightarrow> 'm message \<Rightarrow> jsstring option" where
  "inbound_text env ctx msg =
     (if message_type msg \<noteq> Some (js ''text'') then None
      else case content msg of
             None \<Rightarrow> None
           | Some Unparsable \<Rightarrow> None
           | Some (Parsed t) \<Rightarrow>
               (let text = trim (case t of None \<Rightarrow> [] | Some x \<Rightarrow> x)
                in if text = [] then None
                   else if chat_type msg = Some (js ''group'') then
                     (let ms = (case mentions msg of Some xs \<Rightarrow> xs | None \<Rightarrow> []);
                          text' = trim (strip_user_mentions text)
                      in if text' = [] \<or> \<not> shouldRespondInGroup env text' ms (ctx_botNames ctx)
                         then None else Some text')
                   else Some text))"

text \<open>
  From the status patch to the end of the function: the runtime lookup, the timer, the
  dispatch call with its callbacks, and the \<^verbatim>\<open>catch\<close>.
\<close>

definition dispatch ::
  "'m env \<Rightarrow> MessageHandlerContext \<Rightarrow> 'm event_data \<Rightarrow> 'm message \<Rightarrow> jsstring \<Rightarrow> jsstring
     \<Rightarrow> schedule \<Rightarrow> completion \<times> hstate" where
  "dispatch env ctx data msg chatId text sched =
     (let acc = accountId (ctx_account ctx);
          senderId = (case sender_open_id data of Some i \<Rightarrow> i | None \<Rightarrow> []);
          p2p = (chat_type msg = Some (js ''p2p''));
          sessionKey = js ''feishu:'' @ (if p2p then senderId else chatId);
          s1 = emit (LogInfo (tag acc @ js ''Received from '' @ senderId @ js '': '' @ take 80 text))
                    (status ctx LastInboundAt initial)
      in if \<not> dispatcherAvailable env then
           (Resolved,
            emit (LogError (tag acc @ js ''dispatchReplyWithBufferedBlockDispatcher not available'')) s1)
         else
           (let inboundCtx = \<lparr>Body = text, From = senderId, To = chatId, SessionKey = sessionKey,
                               AccountId = acc, MessageSid = message_id msg,
                               ChatType = (if p2p then js ''direct'' else js ''group'')\<rparr>;
                s2 = s1\<lparr>timer := (if ctx_thinkingThresholdMs ctx > 0 then Armed else NoTimer)\<rparr>;
                s3 = run ctx chatId (during sched) (emit (DispatchReply inboundCtx) s2)
            in case ending sched of
                 DispatchResolves \<Rightarrow> (Resolved, s3)
               | DispatchRejects err r \<Rightarrow> dispatch_catch ctx err r s3))"

text \<open>
  \<^verbatim>\<open>handleIncomingMessage\<close>: the result is how the promise settles, the dedup cache, and
  the state when it settles.
\<close>

definition handleIncomingMessage ::
  "'m env \<Rightarrow> 'm event_data \<Rightarrow> MessageHandlerContext \<Rightarrow> jsstring list \<Rightarrow> schedule
     \<Rightarrow> completion \<times> jsstring list \<times> hstate" where
  "handleIncomingMessage env data ctx seen sched =
     (case message data of
        None \<Rightarrow> (Resolved, seen, initial)
      | Some msg \<Rightarrow>
          (case chat_id msg of
             None \<Rightarrow> (Resolved, seen, initial)
           | Some chatId \<Rightarrow>
               if chatId = [] then (Resolved, seen, initial)
               else (let (dup, seen') = isDuplicate (message_id msg) seen
                     in if dup then (Resolved, seen', initial)
                        else (case inbound_text env ctx msg of
                                None \<Rightarrow> (Resolved, seen', initial)
                              | Some text \<Rightarrow>
                                  (let (c, s) = dispatch env ctx data msg chatId text sched
                                   in (c, seen', s))))))"

text \<open>
  The context that \<^verbatim>\<open>startFeishuProvider\<close> builds for its message handler, with the
  default threshold of 2500 ms.
\<close>

definition handler_context :: "ResolvedFeishuAccount \<Rightarrow> bool \<Rightarrow> MessageHandlerContext" where
  "handler_context account sink =
     \<lparr>ctx_account = account,
      ctx_thinkingThresholdMs = (case thinkingThresholdMs (config account) of Some t \<Rightarrow> t | None \<Rightarrow> 2500),
      ctx_botNames = botNames (config account),
      ctx_statusSink = sink\<rparr>"

text \<open>\<^verbatim>\<open>messageHandler\<close>: the \<^verbatim>\<open>try\<close>/\<^verbatim>\<open>catch\<close> around the handler.\<close>

definition messageHandler ::
  "'m env \<Rightarrow> ResolvedFeishuAccount \<Rightarrow> bool \<Rightarrow> 'm event_data \<Rightarrow> jsstring list \<Rightarrow> schedule
     \<Rightarrow> completion \<times> jsstring list \<times> hstate" where
  "messageHandler env account sink data seen sched =
     (case handleIncomingMessage env data (handler_context account sink) seen sched of
        (Resolved, seen', s) \<Rightarrow> (Resolved, seen', s)
      | (Rejected err, seen', s) \<Rightarrow>
          (Resolved, seen',
           emit (LogError (tag (accountId account) @ js ''Message handler error: '' @ err)) s))"

section \<open>Starting the provider\<close>

text \<open>The configuration of the SDK client; the app type is always self-built.\<close>

record sdk_config =
  sdk_appId :: jsstring
  sdk_appSecret :: jsstring
  sdk_domain :: lark_domain

text \<open>
  What starting a provider does, in the order it happens: log lines, the SDK client, the
  event dispatcher with its keys (\<^verbatim>\<open>x || undefined\<close> turns an empty key into none),
  and then either the HTTP server (created around the handler adapted for the path, then
  told to listen on the port) or the WebSocket client. Status patches carry a wall-clock
  time in the source, which is not modelled. The constructors of the SDK and
  \<^verbatim>\<open>http.createServer\<close> are taken to return.
\<close>

datatype start_effect =
    StartLogInfo jsstring
  | StartLogError jsstring
  | NewClient sdk_config
  | NewEventDispatcher "jsstring option" "jsstring option"
  | HttpServerCreate jsstring
  | HttpServerListen int
  | HttpServerClose
  | WSClientStart sdk_config
  | StatusRunning jsstring
  | StatusFailed jsstring
  | StatusStopped

text \<open>The provider that was started, that is, which \<^verbatim>\<open>stop\<close> function is returned.\<close>

datatype provider = WebhookProvider | WebSocketProvider

definition or_undefined :: "jsstring option \<Rightarrow> jsstring option" where
  "or_undefined x = (if truthy x then x else None)"

text \<open>The decimal numeral of a natural number, as a template literal prints a port.\<close>

fun dec :: "nat \<Rightarrow> jsstring" where
  "dec n = (if n < 10 then [48 + n] else dec (n div 10) @ [48 + n mod 10])"

text \<open>\<^verbatim>\<open>statusSink?.(patch)\<close> of the provider.\<close>

definition start_status :: "bool \<Rightarrow> start_effect \<Rightarrow> start_effect list" where
  "start_status sink p = (if sink then [p] else [])"

text \<open>
  What becomes of the listening server after \<^verbatim>\<open>startWebhookProvider\<close> has returned: the
  port is bound and the listen callback runs, or the server emits \<^verbatim>\<open>error\<close> with a message
  and the error handler runs.
\<close>

datatype listen_outcome = Listening | ListenFails jsstring

text \<open>
  \<^verbatim>\<open>startWebhookProvider\<close>. \<^verbatim>\<open>server.listen(port, ...)\<close> checks its port at once and throws
  \<^verbatim>\<open>ERR_SOCKET_BAD_PORT\<close> for a port outside 0..65535; the exception leaves the function,
  so that nothing is returned and no server listens. The result is the effects and either
  the thrown error (\<open>Inl\<close>) or the provider.
\<close>

definition startWebhookProvider ::
  "ResolvedFeishuAccount \<Rightarrow> bool \<Rightarrow> listen_outcome \<Rightarrow> start_effect list \<times> (jsstring + provider)" where
  "startWebhookProvider account sink outcome =
     (let port = (case webhookPort (config account) of Some p \<Rightarrow> p | None \<Rightarrow> 3000);
          webhookPath = (case webhookPath (config account) of Some p \<Rightarrow> p
                         | None \<Rightarrow> js ''/feishu/events'')
      in if port < 0 \<or> 65535 < port then
           ([HttpServerCreate webhookPath], Inl (js ''ERR_SOCKET_BAD_PORT''))
         else
           ([HttpServerCreate webhookPath, HttpServerListen port] @
            (case outcome of
               Listening \<Rightarrow>
                 StartLogInfo (tag (accountId account) @ js ''Webhook server listening on port ''
                                 @ dec (nat port) @ js '', path '' @ webhookPath)
                   # start_status sink (StatusRunning (js ''webhook''))
             | ListenFails m \<Rightarrow>
                 StartLogError (tag (accountId account) @ js ''Webhook server error: '' @ m)
                   # start_status sink (StatusFailed m)),
            Inr WebhookProvider))"

text \<open>
  \<^verbatim>\<open>startFeishuProvider\<close>: the webhook branch returns what \<^verbatim>\<open>startWebhookProvider\<close>
  returns, or throws what it throws, before the WebSocket client is built.
\<close>

definition startFeishuProvider ::
  "ResolvedFeishuAccount \<Rightarrow> bool \<Rightarrow> listen_outcome \<Rightarrow> start_effect list \<times> (jsstring + provider)" where
  "startFeishuProvider account sink outcome =
     (let mode = (case connectionMode (config account) of Some m \<Rightarrow> m | None \<Rightarrow> js ''websocket'');
          dom = (case domain (config account) of Some d \<Rightarrow> d | None \<Rightarrow> js ''feishu'');
          sdkConfig = \<lparr>sdk_appId = appId account, sdk_appSecret = appSecret account,
                       sdk_domain = resolveLarkDomain_provider (Some dom)\<rparr>;
          common =
            [StartLogInfo (tag (accountId account) @ js ''Starting '' @ mode
                             @ js '' provider (appId='' @ appId account @ js '', domain='' @ dom
                             @ js '')''),
             NewClient sdkConfig,
             NewEventDispatcher (or_undefined (encryptKey (config account)))
                                (or_undefined (verificationToken (config account)))]
      in if mode = js ''webhook'' then
           (case startWebhookProvider account sink outcome of
              (effs, res) \<Rightarrow> (common @ effs, res))
         else
           (common @
            [WSClientStart sdkConfig,
             StartLogInfo (tag (accountId account) @ js ''WebSocket client started'')]
            @ start_status sink (StatusRunning (js ''websocket'')),
            Inr WebSocketProvider))"

text \<open>The \<^verbatim>\<open>stop\<close> function that was returned.\<close>

definition stop :: "ResolvedFeishuAccount \<Rightarrow> bool \<Rightarrow> provider \<Rightarrow> start_effect list" where
  "stop account sink p =
     (case p of
        WebSocketProvider \<Rightarrow>
          StartLogInfo (tag (accountId account) @ js ''Stopping WebSocket provider'')
            # start_status sink StatusStopped
      | WebhookProvider \<Rightarrow>
          [StartLogInfo (tag (accountId account) @ js ''Stopping Webhook server''),
           HttpServerClose] @ start_status sink StatusStopped)"

section \<open>The webhook server\<close>

text \<open>
  The part of \<^verbatim>\<open>http.ServerResponse\<close> that the error path touches. \<^verbatim>\<open>writeHead\<close> sets the
  status and the headers and marks them sent; \<^verbatim>\<open>end\<close> writes the body and closes.
\<close>

record response =
  headersSent :: bool
  statusCode :: "nat option"
  headers :: "(jsstring \<times> jsstring) list"
  body :: "jsstring list"
  ended :: bool

definition writeHead :: "nat \<Rightarrow> (jsstring \<times> jsstring) list \<Rightarrow> response \<Rightarrow> response" where
  "writeHead code hs res = res\<lparr>headersSent := True, statusCode := Some code, headers := headers res @ hs\<rparr>"

definition end_with :: "jsstring \<Rightarrow> response \<Rightarrow> response" where
  "end_with chunk res = res\<lparr>body := body res @ [chunk], ended := True\<rparr>"

text \<open>
  The adapted handler of the SDK is a parameter: given the request and the response it
  leaves the response in some state and its promise resolves or rejects. The request
  callback of the server attaches the \<^verbatim>\<open>catch\<close>; the result is the response and the log.
\<close>

definition webhook_catch :: "jsstring \<Rightarrow> jsstring \<Rightarrow> response \<Rightarrow> response \<times> jsstring list" where
  "webhook_catch acc err res =
     (if \<not> headersSent res then
        end_with (js ''Internal Server Error'')
          (writeHead 500 [(js ''Content-Type'', js ''text/plain'')] res)
      else res,
      [tag acc @ js ''Webhook handler error: '' @ err])"

definition on_request ::
  "ResolvedFeishuAccount \<Rightarrow> ('req \<Rightarrow> response \<Rightarrow> completion \<times> response) \<Rightarrow> 'req \<Rightarrow> response
     \<Rightarrow> response \<times> jsstring list" where
  "on_request account webhookHandler req res =
     (case webhookHandler req res of
        (Resolved, res') \<Rightarrow> (res', [])
      | (Rejected err, res') \<Rightarrow> webhook_catch (accountId account) err res')"

section \<open>Observations on effects\<close>

text \<open>The kinds of effect that the properties below count or exclude.\<close>

fun is_create :: "effect \<Rightarrow> bool" where
  "is_create (CreatePlaceholder c) = True"
| "is_create e = False"

fun is_dispatch :: "effect \<Rightarrow> bool" where
  "is_dispatch (DispatchReply i) = True"
| "is_dispatch e = False"

text \<open>A call to the platform: the placeholder create or one of the four senders.\<close>

fun is_call :: "effect \<Rightarrow> bool" where
  "is_call (CreatePlaceholder c) = True"
| "is_call (Api c r) = True"
| "is_call e = False"

text \<open>A call that creates, updates or deletes a placeholder.\<close>

fun is_placeholder_call :: "effect \<Rightarrow> bool" where
  "is_placeholder_call (CreatePlaceholder c) = True"
| "is_placeholder_call (Api (UpdateMessage i t) r) = True"
| "is_placeholder_call (Api (DeleteMessage i) r) = True"
| "is_placeholder_call e = False"

definition creates :: "hstate \<Rightarrow> effect list" where
  "creates s = filter is_create (effects s)"

definition dispatches :: "hstate \<Rightarrow> nat" where
  "dispatches s = length (filter is_dispatch (effects s))"

definition calls :: "hstate \<Rightarrow> effect list" where
  "calls s = filter is_call (effects s)"

text \<open>A call that updates or deletes a placeholder.\<close>

fun is_disposal :: "effect \<Rightarrow> bool" where
  "is_disposal (Api (UpdateMessage i t) r) = True"
| "is_disposal (Api (DeleteMessage i) r) = True"
| "is_disposal e = False"

fun is_reply :: "event \<Rightarrow> bool" where
  "is_reply (Timer e) = False"
| "is_reply e = True"

text \<open>
  The call that sends a reply directly, as a new message: nothing for a skipped payload,
  the media sender for a payload with a media URL, the text sender otherwise.
\<close>

fun direct_send :: "jsstring \<Rightarrow> event \<Rightarrow> effect list" where
  "direct_send chatId (Deliver p r1 r2) =
     (if skip_reply (trim (replyText_of p)) (mediaUrl_of p) then []
      else case mediaUrl_of p of
             Some url \<Rightarrow>
               if url \<noteq> [] then [Api (SendMedia chatId url (replyText_of p)) r1]
               else [Api (SendText chatId (replyText_of p)) r1]
           | None \<Rightarrow> [Api (SendText chatId (replyText_of p)) r1])"
| "direct_send chatId e = []"

text \<open>
  The calls by which a reply callback disposes of the placeholder \<open>i\<close>: a text reply
  updates it, a media reply deletes it and then sends the media, a skipped payload and an
  error delete it.
\<close>

fun settles :: "jsstring \<Rightarrow> jsstring \<Rightarrow> event \<Rightarrow> effect list" where
  "settles chatId i (Deliver p r1 r2) =
     (if skip_reply (trim (replyText_of p)) (mediaUrl_of p) then [Api (DeleteMessage i) r1]
      else case mediaUrl_of p of
             Some url \<Rightarrow>
               if url \<noteq> [] then
                 Api (DeleteMessage i) r1 #
                   (if r1 = ApiOk then [Api (SendMedia chatId url (replyText_of p)) r2] else [])
               else [Api (UpdateMessage i (replyText_of p)) r1]
           | None \<Rightarrow> [Api (UpdateMessage i (replyText_of p)) r1])"
| "settles chatId i (OnError err r) = [Api (DeleteMessage i) r]"
| "settles chatId i (Timer e) = []"

text \<open>An HTTP server created, an HTTP server listening, a WebSocket client started.\<close>

fun is_http_created :: "start_effect \<Rightarrow> bool" where
  "is_http_created (HttpServerCreate p) = True"
| "is_http_created e = False"

fun is_http :: "start_effect \<Rightarrow> bool" where
  "is_http (HttpServerListen p) = True"
| "is_http e = False"

fun is_ws :: "start_effect \<Rightarrow> bool" where
  "is_ws (WSClientStart c) = True"
| "is_ws e = False"

text \<open>The text that the handler hands to the group filter for a parsed message.\<close>

definition group_text :: "jsstring \<Rightarrow> jsstring" where
  "group_text t = trim (strip_user_mentions (trim t))"

subsection \<open>Sample inputs\<close>

definition sample_config :: FeishuAccountConfig where
  "sample_config =
     \<lparr>thinkingThresholdMs = None, botNames = None, connectionMode = None, domain = None,
      encryptKey = None, verificationToken = None, webhookPort = None, webhookPath = None,
      groups = None, requireMention = None\<rparr>"

definition sample_account :: ResolvedFeishuAccount where
  "sample_account =
     \<lparr>accountId = js ''main'', appId = js ''cli_a'', appSecret = js ''secret'',
      config = sample_config\<rparr>"

text \<open>A direct text message "hi" and a group text message "hello" without mentions.\<close>

definition direct_message :: "unit event_data" where
  "direct_message =
     \<lparr>message = Some \<lparr>chat_id = Some (js ''oc_1''), message_id = Some (js ''om_1''),
                       message_type = Some (js ''text''),
                       content = Some (Parsed (Some (js ''hi''))),
                       chat_type = Some (js ''p2p''), mentions = None\<rparr>,
      sender_open_id = Some (js ''ou_1'')\<rparr>"

definition group_message :: "unit event_data" where
  "group_message =
     \<lparr>message = Some \<lparr>chat_id = Some (js ''oc_g''), message_id = Some (js ''om_2''),
                       message_type = Some (js ''text''),
                       content = Some (Parsed (Some (js ''hello''))),
                       chat_type = Some (js ''group''), mentions = Some []\<rparr>,
      sender_open_id = Some (js ''ou_1'')\<rparr>"

text \<open>An environment whose group filter rejects everything, and one that accepts everything.\<close>

definition rejecting_env :: "unit env" where
  "rejecting_env = \<lparr>shouldRespondInGroup = (\<lambda>t ms names. False), dispatcherAvailable = True\<rparr>"

definition accepting_env :: "unit env" where
  "accepting_env = \<lparr>shouldRespondInGroup = (\<lambda>t ms names. True), dispatcherAvailable = True\<rparr>"

text \<open>The state in which the dispatcher is called when the timer has been scheduled.\<close>

definition armed :: hstate where
  "armed = initial\<lparr>timer := Armed\<rparr>"

section \<open>Basic facts\<close>

lemmas model_defs =
  handleIncomingMessage_def dispatch_def inbound_text_def isDuplicate_def handler_context_def
  messageHandler_def initial_def armed_def Let_def tag_def js_def trim_def js_space_def js_digit_def
  skip_reply_def endsWith_def suffix_to_prefix group_text_def at_user_mention_def

lemmas sample_defs =
  sample_account_def sample_config_def direct_message_def group_message_def
  rejecting_env_def accepting_env_def

lemmas callback_defs =
  deliver_def onError_def dispatch_catch_def try_call_def api_def emit_def status_def
  finish_def timer_fires_def create_settles_def

lemma done_timer_step: "done_flag s \<Longrightarrow> done_flag (timer_step chatId e s)"
  by (cases e) (auto simp: callback_defs split: create_result.splits)

lemma done_step: "done_flag s \<Longrightarrow> done_flag (step ctx chatId e s)"
  by (cases e)
     (auto simp: done_timer_step callback_defs Let_def split: api_result.splits option.splits)

lemma reply_sets_done: "is_reply e \<Longrightarrow> done_flag (step ctx chatId e s)"
  by (cases e) (auto simp: callback_defs Let_def split: api_result.splits option.splits)

lemma creates_timer_step_done:
  "done_flag s \<Longrightarrow> creates (timer_step chatId e s) = creates s"
  by (cases e) (auto simp: creates_def callback_defs split: create_result.splits)

lemma creates_deliver: "creates (snd (deliver ctx chatId p r1 r2 s)) = creates s"
  by (auto simp: creates_def callback_defs Let_def split: api_result.splits option.splits)

lemma creates_onError: "creates (onError ctx err r s) = creates s"
  by (auto simp: creates_def callback_defs Let_def)

lemma creates_catch: "creates (snd (dispatch_catch ctx err r s)) = creates s"
  by (auto simp: creates_def callback_defs Let_def)

lemma creates_reply: "is_reply e \<Longrightarrow> creates (step ctx chatId e s) = creates s"
  by (cases e) (simp_all add: creates_deliver creates_onError)

lemma creates_step_done: "done_flag s \<Longrightarrow> creates (step ctx chatId e s) = creates s"
  by (cases e) (simp_all add: creates_timer_step_done creates_deliver creates_onError)

lemma creates_run_done: "done_flag s \<Longrightarrow> creates (run ctx chatId es s) = creates s"
  by (induction es arbitrary: s) (simp_all add: done_step creates_step_done)

lemma done_run: "done_flag s \<Longrightarrow> done_flag (run ctx chatId es s)"
  by (induction es arbitrary: s) (simp_all add: done_step)

lemma creates_later_done: "done_flag s \<Longrightarrow> creates (later chatId es s) = creates s"
  by (induction es arbitrary: s) (simp_all add: done_timer_step creates_timer_step_done)

lemma dispatches_step: "dispatches (step ctx chatId e s) = dispatches s"
  apply (cases e)
  subgoal for t by (cases t) (auto simp: dispatches_def callback_defs split: create_result.splits)
  subgoal by (auto simp: dispatches_def callback_defs Let_def split: api_result.splits option.splits)
  subgoal by (auto simp: dispatches_def callback_defs Let_def split: api_result.splits option.splits)
  done

lemma dispatches_run: "dispatches (run ctx chatId es s) = dispatches s"
  by (induction es arbitrary: s) (simp_all add: dispatches_step)

lemma dispatches_catch: "dispatches (snd (dispatch_catch ctx err r s)) = dispatches s"
  by (auto simp: dispatches_def callback_defs Let_def split: api_result.splits)

lemma dispatches_dispatch: "dispatches (snd (dispatch env ctx data msg chatId text sched)) \<le> 1"
  by (auto simp: dispatch_def Let_def dispatches_run dispatches_catch split: dispatch_end.splits)
     (auto simp: dispatches_def emit_def status_def initial_def)

lemma dispatches_dispatch_eq:
  "dispatch env ctx data msg chatId text sched = (c, s) \<Longrightarrow> dispatches s \<le> 1"
  using dispatches_dispatch [of env ctx data msg chatId "text" sched] by simp

lemma dispatches_handle:
  assumes "handleIncomingMessage env data ctx seen sched = (c, seen', s)"
  shows "dispatches s \<le> 1"
proof -
  have d0: "dispatches initial = 0"
    by (simp add: dispatches_def initial_def)
  show ?thesis
    using assms d0
    by (auto simp: handleIncomingMessage_def Let_def dest: dispatches_dispatch_eq
             split: option.splits if_splits prod.splits)
qed


lemma onError_effects:
  "effects (onError ctx err r s)
     = effects s @ LogError (tag (accountId (ctx_account ctx)) @ js ''Dispatcher error: '' @ err)
         # (if placeholderId s \<noteq> [] then [Api (DeleteMessage (placeholderId s)) r] else [])"
  by (simp add: onError_def Let_def finish_def api_def emit_def)

lemma catch_effects:
  "effects (snd (dispatch_catch ctx err r s))
     = effects s @ LogError (tag (accountId (ctx_account ctx)) @ js ''Dispatch error: '' @ err)
         # (if placeholderId s \<noteq> [] then [Api (DeleteMessage (placeholderId s)) r] else [])"
  by (simp add: dispatch_catch_def Let_def finish_def api_def emit_def)

lemma catch_completion:
  "fst (dispatch_catch ctx err r s)
     = (if placeholderId s = [] then Resolved
        else case r of ApiOk \<Rightarrow> Resolved | ApiFails e \<Rightarrow> Rejected e)"
  by (simp add: dispatch_catch_def Let_def finish_def api_def emit_def)

lemma dispatch_rejected:
  assumes "fst (dispatch env ctx data msg chatId t sched) = Rejected e"
  shows "\<exists>err. ending sched = DispatchRejects err (ApiFails e)"
  using assms
  by (auto simp: dispatch_def Let_def catch_completion
           split: if_splits dispatch_end.splits api_result.splits)

lemma dispatch_rejected_eq:
  "dispatch env ctx data msg chatId t sched = (Rejected e, s)
     \<Longrightarrow> \<exists>err. ending sched = DispatchRejects err (ApiFails e)"
  using dispatch_rejected [of env ctx data msg chatId t sched e] by simp

lemma handle_rejected:
  assumes "fst (handleIncomingMessage env data ctx seen sched) = Rejected e"
  shows "\<exists>err. ending sched = DispatchRejects err (ApiFails e)"
  using assms
  by (auto simp: handleIncomingMessage_def Let_def
           split: option.splits if_splits prod.splits dest: dispatch_rejected_eq)

lemma dispatch_throws:
  assumes "dispatcherAvailable env" and "ending sched = DispatchRejects err r"
  shows "dispatch env ctx data msg chatId t sched
           = dispatch_catch ctx err r
               (snd (dispatch env ctx data msg chatId t (sched\<lparr>ending := DispatchResolves\<rparr>)))"
  using assms by (simp add: dispatch_def Let_def)

lemma messageHandler_resolves: "fst (messageHandler env account sink data seen sched) = Resolved"
  by (simp add: messageHandler_def split: prod.splits completion.splits)

lemma messageHandler_logs:
  assumes "handleIncomingMessage env data (handler_context account sink) seen sched
             = (Rejected e, seen', s')"
  shows "messageHandler env account sink data seen sched
           = (Resolved, seen',
              emit (LogError (tag (accountId account) @ js ''Message handler error: '' @ e)) s')"
  using assms by (simp add: messageHandler_def)

lemma placeholder_call_is_call: "is_placeholder_call e \<Longrightarrow> is_call e"
  by (cases e) auto

lemma placeholder_calls_of_calls:
  "filter is_placeholder_call (effects s) = filter is_placeholder_call (calls s)"
proof -
  have "(\<lambda>e. is_call e \<and> is_placeholder_call e) = is_placeholder_call"
    using placeholder_call_is_call by auto
  then show ?thesis by (simp add: calls_def)
qed

lemma direct_send_no_placeholder: "filter is_placeholder_call (direct_send chatId e) = []"
  by (cases e) (auto split: option.splits)

lemma direct_sends_no_placeholder:
  "filter is_placeholder_call (concat (map (direct_send chatId) es)) = []"
  by (induction es) (simp_all add: direct_send_no_placeholder)

lemma timer_step_no_timer: "timer s = NoTimer \<Longrightarrow> timer_step chatId e s = s"
  by (cases e) (simp_all add: timer_fires_def create_settles_def)

lemma later_no_timer: "timer s = NoTimer \<Longrightarrow> later chatId es s = s"
  by (induction es) (simp_all add: timer_step_no_timer)

lemma deliver_no_timer:
  assumes "timer s = NoTimer" and "placeholderId s = []"
  shows "timer (snd (deliver ctx chatId p r1 r2 s)) = NoTimer
         \<and> placeholderId (snd (deliver ctx chatId p r1 r2 s)) = []
         \<and> calls (snd (deliver ctx chatId p r1 r2 s)) = calls s @ direct_send chatId (Deliver p r1 r2)"
proof (cases "skip_reply (trim (replyText_of p)) (mediaUrl_of p)")
  case True
  with assms show ?thesis
    by (simp add: deliver_def Let_def finish_def calls_def)
next
  case False
  with assms show ?thesis
    by (cases "mediaUrl_of p"; cases r1)
       (simp_all add: deliver_def Let_def finish_def calls_def status_def try_call_def api_def emit_def)
qed

lemma onError_no_timer:
  assumes "timer s = NoTimer" and "placeholderId s = []"
  shows "timer (onError ctx err r s) = NoTimer \<and> placeholderId (onError ctx err r s) = []
         \<and> calls (onError ctx err r s) = calls s"
  using assms by (simp add: onError_def Let_def finish_def calls_def emit_def)

lemma step_no_timer:
  assumes "timer s = NoTimer" and "placeholderId s = []"
  shows "timer (step ctx chatId e s) = NoTimer \<and> placeholderId (step ctx chatId e s) = []
         \<and> calls (step ctx chatId e s) = calls s @ direct_send chatId e"
proof (cases e)
  case (Timer x1)
  with assms show ?thesis by (simp add: timer_step_no_timer)
next
  case (Deliver p r1 r2)
  with deliver_no_timer [OF assms] show ?thesis by simp
next
  case (OnError err r)
  with onError_no_timer [OF assms] show ?thesis by simp
qed

lemma run_no_timer:
  assumes "timer s = NoTimer" and "placeholderId s = []"
  shows "timer (run ctx chatId es s) = NoTimer \<and> placeholderId (run ctx chatId es s) = []
         \<and> calls (run ctx chatId es s) = calls s @ concat (map (direct_send chatId) es)"
  using assms
proof (induction es arbitrary: s)
  case Nil
  then show ?case by simp
next
  case (Cons e es)
  from step_no_timer [OF Cons.prems, of ctx chatId e]
  have st: "timer (step ctx chatId e s) = NoTimer" "placeholderId (step ctx chatId e s) = []"
    "calls (step ctx chatId e s) = calls s @ direct_send chatId e"
    by simp_all
  from Cons.IH [OF st(1,2)] st(3) show ?case by simp
qed

lemma catch_no_timer:
  assumes "timer s = NoTimer" and "placeholderId s = []"
  shows "timer (snd (dispatch_catch ctx err r s)) = NoTimer
         \<and> placeholderId (snd (dispatch_catch ctx err r s)) = []
         \<and> calls (snd (dispatch_catch ctx err r s)) = calls s"
  using assms by (simp add: dispatch_catch_def Let_def finish_def calls_def emit_def)

lemma emit_fields:
  "timer (emit e s) = timer s" "placeholderId (emit e s) = placeholderId s"
  "done_flag (emit e s) = done_flag s" "effects (emit e s) = effects s @ [e]"
  by (simp_all add: emit_def)

lemma status_fields:
  "timer (status ctx p s) = timer s" "placeholderId (status ctx p s) = placeholderId s"
  "done_flag (status ctx p s) = done_flag s" "calls (status ctx p s) = calls s"
  by (simp_all add: status_def emit_def calls_def)

lemma calls_emit: "calls (emit e s) = calls s @ (if is_call e then [e] else [])"
  by (simp add: calls_def emit_def)

lemma calls_timer_update: "calls (s\<lparr>timer := x\<rparr>) = calls s"
  by (simp add: calls_def)

lemma dispatch_no_timer:
  assumes "ctx_thinkingThresholdMs ctx \<le> 0"
  shows "timer (snd (dispatch env ctx data msg chatId t sched)) = NoTimer
         \<and> placeholderId (snd (dispatch env ctx data msg chatId t sched)) = []
         \<and> calls (snd (dispatch env ctx data msg chatId t sched))
             = (if dispatcherAvailable env then concat (map (direct_send chatId) (during sched))
                else [])"
proof -
  have i: "timer initial = NoTimer" "placeholderId initial = []" "calls initial = []"
    by (simp_all add: initial_def calls_def)
  have run: "timer (run ctx chatId es s) = NoTimer" "placeholderId (run ctx chatId es s) = []"
    "calls (run ctx chatId es s) = calls s @ concat (map (direct_send chatId) es)"
    if "timer s = NoTimer" "placeholderId s = []" for s es
    using run_no_timer [OF that] by simp_all
  have catch: "timer (snd (dispatch_catch ctx err r s)) = NoTimer"
    "placeholderId (snd (dispatch_catch ctx err r s)) = []"
    "calls (snd (dispatch_catch ctx err r s)) = calls s"
    if "timer s = NoTimer" "placeholderId s = []" for s err r
    using catch_no_timer [OF that] by simp_all
  from assms have n: "\<not> 0 < ctx_thinkingThresholdMs ctx" by simp
  show ?thesis
    by (simp add: dispatch_def Let_def n i run catch emit_fields status_fields calls_emit
                  calls_timer_update split: dispatch_end.splits)
qed

lemma handle_no_timer:
  assumes "ctx_thinkingThresholdMs ctx \<le> 0"
  shows "timer (snd (snd (handleIncomingMessage env data ctx seen sched))) = NoTimer
         \<and> placeholderId (snd (snd (handleIncomingMessage env data ctx seen sched))) = []
         \<and> filter is_placeholder_call
              (effects (snd (snd (handleIncomingMessage env data ctx seen sched)))) = []"
proof -
  have i: "timer initial = NoTimer \<and> placeholderId initial = []
           \<and> filter is_placeholder_call (effects initial) = []"
    by (simp add: initial_def)
  have d: "timer s = NoTimer \<and> placeholderId s = []
           \<and> filter is_placeholder_call (effects s) = []"
    if "dispatch env ctx data msg chatId t sched = (c, s)" for msg chatId t c s
    using dispatch_no_timer [OF assms, of env data msg chatId t sched] that
    by (simp add: placeholder_calls_of_calls direct_sends_no_placeholder)
  show ?thesis
    using i d
    by (auto simp: handleIncomingMessage_def Let_def split: option.splits prod.splits)
qed

lemma creates_timer_step_other:
  "e \<noteq> TimerFires \<Longrightarrow> creates (timer_step chatId e s) = creates s"
  by (cases e) (auto simp: creates_def create_settles_def split: create_result.splits)

lemma creates_step_other:
  "Timer TimerFires \<noteq> e \<Longrightarrow> creates (step ctx chatId e s) = creates s"
  by (cases e) (auto simp: creates_timer_step_other creates_deliver creates_onError)

lemma creates_run_other:
  "Timer TimerFires \<notin> set es \<Longrightarrow> creates (run ctx chatId es s) = creates s"
  by (induction es arbitrary: s) (simp_all add: creates_step_other)

lemma run_append: "run ctx chatId (xs @ ys) s = run ctx chatId ys (run ctx chatId xs s)"
  by (induction xs arbitrary: s) simp_all

lemma catch_sets_done: "done_flag (snd (dispatch_catch ctx err r s))"
  by (simp add: dispatch_catch_def Let_def finish_def api_def emit_def)

lemma reply_first_no_create:
  assumes "Timer TimerFires \<notin> set pre" and "is_reply e"
  shows "creates (later chatId tevs (run ctx chatId (pre @ e # es) s)) = creates s"
proof -
  let ?s1 = "run ctx chatId pre s"
  let ?s2 = "step ctx chatId e ?s1"
  have d: "done_flag ?s2" using assms(2) by (rule reply_sets_done)
  have "creates (later chatId tevs (run ctx chatId (pre @ e # es) s))
          = creates (later chatId tevs (run ctx chatId es ?s2))"
    by (simp add: run_append)
  also have "\<dots> = creates (run ctx chatId es ?s2)"
    using d by (simp add: creates_later_done done_run)
  also have "\<dots> = creates ?s2"
    using d by (simp add: creates_run_done)
  also have "\<dots> = creates ?s1"
    using assms(2) by (simp add: creates_reply)
  also have "\<dots> = creates s"
    using assms(1) by (simp add: creates_run_other)
  finally show ?thesis .
qed

lemma throw_first_no_create:
  assumes "Timer TimerFires \<notin> set pre"
  shows "creates (later chatId tevs (snd (dispatch_catch ctx err r (run ctx chatId pre s))))
           = creates s"
  using assms
  by (simp add: creates_later_done catch_sets_done creates_catch creates_run_other)

lemma done_no_create:
  assumes "done_flag s"
  shows "creates (later chatId tevs (run ctx chatId es s)) = creates s"
  using assms by (simp add: creates_later_done done_run creates_run_done)

lemma placeholder_created:
  assumes "timer s = Armed" and "\<not> done_flag s"
  shows "run ctx chatId [Timer TimerFires, Timer (CreateSettles (CreateReturns (Some i)))] s
           = s\<lparr>placeholderId := i, timer := Finished,
                effects := effects s @ [CreatePlaceholder chatId]\<rparr>"
  using assms by (simp add: timer_fires_def create_settles_def emit_def)

lemma reply_settles:
  assumes "placeholderId s = i" and "i \<noteq> []" and "is_reply e"
  shows "calls (step ctx chatId e s) = calls s @ settles chatId i e"
proof (cases e)
  case (Timer x1)
  with assms show ?thesis by simp
next
  case (OnError err r)
  with assms show ?thesis
    by (simp add: onError_def Let_def finish_def api_def emit_def calls_def)
next
  case (Deliver p r1 r2)
  show ?thesis
  proof (cases "skip_reply (trim (replyText_of p)) (mediaUrl_of p)")
    case True
    with assms Deliver show ?thesis
      by (simp add: deliver_def Let_def finish_def api_def emit_def calls_def)
  next
    case False
    with assms Deliver show ?thesis
      by (cases "mediaUrl_of p"; cases r1; cases r2)
         (simp_all add: deliver_def Let_def finish_def calls_def status_def try_call_def
                        api_def emit_def)
  qed
qed

lemma throw_settles:
  assumes "placeholderId s = i" and "i \<noteq> []"
  shows "calls (snd (dispatch_catch ctx err r s)) = calls s @ [Api (DeleteMessage i) r]"
  using assms by (simp add: dispatch_catch_def Let_def finish_def api_def emit_def calls_def)

lemma create_failed:
  assumes "timer s = Armed" and "\<not> done_flag s" and "placeholderId s = []"
  shows "run ctx chatId [Timer TimerFires, Timer (CreateSettles CreateThrows)] s
           = s\<lparr>timer := Finished, effects := effects s @ [CreatePlaceholder chatId]\<rparr>"
  using assms by (simp add: timer_fires_def create_settles_def emit_def)

lemma reply_direct:
  assumes "placeholderId s = []" and "is_reply e"
  shows "calls (step ctx chatId e s) = calls s @ direct_send chatId e"
proof (cases e)
  case (Timer x1)
  with assms show ?thesis by simp
next
  case (OnError err r)
  with assms show ?thesis
    by (simp add: onError_def Let_def finish_def emit_def calls_def)
next
  case (Deliver p r1 r2)
  show ?thesis
  proof (cases "skip_reply (trim (replyText_of p)) (mediaUrl_of p)")
    case True
    with assms Deliver show ?thesis
      by (simp add: deliver_def Let_def finish_def calls_def)
  next
    case False
    with assms Deliver show ?thesis
      by (cases "mediaUrl_of p"; cases r1)
         (simp_all add: deliver_def Let_def finish_def calls_def status_def try_call_def
                        api_def emit_def)
  qed
qed

lemma group_filter_drops:
  assumes "message data = Some msg" and "chat_type msg = Some (js ''group'')"
    and "content msg = Some (Parsed (Some t))"
    and "\<not> shouldRespondInGroup env (group_text t)
             (case mentions msg of Some xs \<Rightarrow> xs | None \<Rightarrow> []) (ctx_botNames ctx)"
  shows "fst (handleIncomingMessage env data ctx seen sched) = Resolved
         \<and> snd (snd (handleIncomingMessage env data ctx seen sched)) = initial"
proof -
  from assms(2-4) have "inbound_text env ctx msg = None"
    by (simp add: inbound_text_def Let_def group_text_def)
  with assms(1) show ?thesis
    by (simp add: handleIncomingMessage_def Let_def split: option.splits prod.splits)
qed

section \<open>The domain resolver\<close>

text \<open>
  C9. \<^verbatim>\<open>resolveLarkDomain\<close> returns \<open>Lark\<close> exactly when its argument is the string
  "lark" and \<open>Feishu\<close> for every other input, the absent argument included; the private
  copy in the provider file computes the same function as the shared resolver.
\<close>

theorem resolveLarkDomain_exact:
  "(resolveLarkDomain d = Lark) = (d = Some (js ''lark''))
   \<and> (resolveLarkDomain d = Feishu) = (d \<noteq> Some (js ''lark''))
   \<and> resolveLarkDomain_provider d = resolveLarkDomain d"
  by (simp add: resolveLarkDomain_def resolveLarkDomain_provider_def)

theorem resolveLarkDomain_exact_witness:
  "resolveLarkDomain (Some (js ''lark'')) = Lark
   \<and> resolveLarkDomain None = Feishu
   \<and> resolveLarkDomain (Some (js ''feishu'')) = Feishu
   \<and> resolveLarkDomain (Some (js ''Lark'')) = Feishu
   \<and> resolveLarkDomain_provider (Some (js ''lark'')) = Lark"
  using resolveLarkDomain_exact [of "Some (js ''lark'')"]
        resolveLarkDomain_exact [of None]
        resolveLarkDomain_exact [of "Some (js ''feishu'')"]
        resolveLarkDomain_exact [of "Some (js ''Lark'')"]
  by (simp add: js_def)

section \<open>One connection mode per account\<close>

text \<open>
  C8, as stated, at a concrete input. The claim: for every account, the provider starts
  exactly one connection mode, the HTTP server when the mode is "webhook". Here the mode
  is "webhook" and the configured port is 70000: \<^verbatim>\<open>server.listen\<close> throws, the provider
  throws with it, and neither an HTTP server listens nor is a WebSocket client started.
\<close>

theorem bad_port_starts_nothing:
  "startFeishuProvider
     (sample_account\<lparr>config := sample_config\<lparr>connectionMode := Some (js ''webhook''),
                                               webhookPort := Some 70000\<rparr>\<rparr>) True Listening
   = ([StartLogInfo (js ''[feishu:main] Starting webhook provider (appId=cli_a, domain=feishu)''),
       NewClient \<lparr>sdk_appId = js ''cli_a'', sdk_appSecret = js ''secret'', sdk_domain = Feishu\<rparr>,
       NewEventDispatcher None None,
       HttpServerCreate (js ''/feishu/events'')],
      Inl (js ''ERR_SOCKET_BAD_PORT''))
   \<and> filter is_http (fst (startFeishuProvider
     (sample_account\<lparr>config := sample_config\<lparr>connectionMode := Some (js ''webhook''),
                                               webhookPort := Some 70000\<rparr>\<rparr>) True Listening)) = []
   \<and> filter is_ws (fst (startFeishuProvider
     (sample_account\<lparr>config := sample_config\<lparr>connectionMode := Some (js ''webhook''),
                                               webhookPort := Some 70000\<rparr>\<rparr>) True Listening)) = []"
  by (simp add: startFeishuProvider_def startWebhookProvider_def start_status_def Let_def
                sample_account_def sample_config_def tag_def js_def
                resolveLarkDomain_provider_def or_undefined_def)

text \<open>
  C8, as amended. With the connection mode "webhook" and a port (webhookPort, 3000 when
  absent) within 0..65535, the provider creates one HTTP server, tells it to listen, and
  returns without starting a WebSocket client; with a port outside that range
  \<^verbatim>\<open>server.listen\<close> throws, the provider throws with it and nothing listens or is
  started. With any other mode, or none, it starts one WebSocket client and creates no
  HTTP server. Never both for the same account.
\<close>

theorem startFeishuProvider_one_mode:
  "(connectionMode (config account) = Some (js ''webhook'')
      \<and> 0 \<le> (case webhookPort (config account) of Some p \<Rightarrow> p | None \<Rightarrow> 3000)
      \<and> (case webhookPort (config account) of Some p \<Rightarrow> p | None \<Rightarrow> 3000) \<le> 65535
      \<longrightarrow> snd (startFeishuProvider account sink outcome) = Inr WebhookProvider
          \<and> length (filter is_http (fst (startFeishuProvider account sink outcome))) = 1
          \<and> length (filter is_http_created (fst (startFeishuProvider account sink outcome))) = 1
          \<and> filter is_ws (fst (startFeishuProvider account sink outcome)) = [])
   \<and> (connectionMode (config account) = Some (js ''webhook'')
      \<and> ((case webhookPort (config account) of Some p \<Rightarrow> p | None \<Rightarrow> 3000) < 0
          \<or> 65535 < (case webhookPort (config account) of Some p \<Rightarrow> p | None \<Rightarrow> 3000))
      \<longrightarrow> snd (startFeishuProvider account sink outcome) = Inl (js ''ERR_SOCKET_BAD_PORT'')
          \<and> filter is_http (fst (startFeishuProvider account sink outcome)) = []
          \<and> filter is_ws (fst (startFeishuProvider account sink outcome)) = [])
   \<and> (connectionMode (config account) \<noteq> Some (js ''webhook'')
      \<longrightarrow> snd (startFeishuProvider account sink outcome) = Inr WebSocketProvider
          \<and> filter is_http (fst (startFeishuProvider account sink outcome)) = []
          \<and> filter is_http_created (fst (startFeishuProvider account sink outcome)) = []
          \<and> length (filter is_ws (fst (startFeishuProvider account sink outcome))) = 1)"
  by (cases outcome)
     (auto simp: startFeishuProvider_def startWebhookProvider_def start_status_def Let_def js_def
           split: option.splits)

theorem startFeishuProvider_one_mode_witness:
  "snd (startFeishuProvider
      (sample_account\<lparr>config := sample_config\<lparr>connectionMode := Some (js ''webhook'')\<rparr>\<rparr>)
      True Listening) = Inr WebhookProvider
   \<and> length (filter is_http (fst (startFeishuProvider
      (sample_account\<lparr>config := sample_config\<lparr>connectionMode := Some (js ''webhook'')\<rparr>\<rparr>)
      True Listening))) = 1
   \<and> filter is_ws (fst (startFeishuProvider
      (sample_account\<lparr>config := sample_config\<lparr>connectionMode := Some (js ''webhook'')\<rparr>\<rparr>)
      True Listening)) = []
   \<and> snd (startFeishuProvider
      (sample_account\<lparr>config := sample_config\<lparr>connectionMode := Some (js ''webhook''),
                                                webhookPort := Some (- 1)\<rparr>\<rparr>)
      True Listening) = Inl (js ''ERR_SOCKET_BAD_PORT'')
   \<and> filter is_http (fst (startFeishuProvider
      (sample_account\<lparr>config := sample_config\<lparr>connectionMode := Some (js ''webhook''),
                                                webhookPort := Some (- 1)\<rparr>\<rparr>)
      True Listening)) = []
   \<and> snd (startFeishuProvider sample_account True Listening) = Inr WebSocketProvider
   \<and> filter is_http (fst (startFeishuProvider sample_account True Listening)) = []
   \<and> length (filter is_ws (fst (startFeishuProvider sample_account True Listening))) = 1"
  using startFeishuProvider_one_mode
          [of "sample_account\<lparr>config := sample_config\<lparr>connectionMode := Some (js ''webhook'')\<rparr>\<rparr>"
              True Listening]
        startFeishuProvider_one_mode
          [of "sample_account\<lparr>config := sample_config\<lparr>connectionMode := Some (js ''webhook''),
                                                webhookPort := Some (- 1)\<rparr>\<rparr>"
              True Listening]
        startFeishuProvider_one_mode [of sample_account True Listening]
  by (simp add: sample_account_def sample_config_def)

section \<open>Webhook errors\<close>

text \<open>
  C7. When the adapted handler of a webhook request rejects, the server logs the error;
  if the response headers are not yet sent it answers with status 500 and the body
  "Internal Server Error", and if they are sent it leaves the response as it is.
\<close>

theorem webhook_rejection_500:
  assumes "webhookHandler req res = (Rejected err, res')"
  shows "snd (on_request account webhookHandler req res)
           = [tag (accountId account) @ js ''Webhook handler error: '' @ err]
         \<and> (\<not> headersSent res' \<longrightarrow>
              fst (on_request account webhookHandler req res)
                = res'\<lparr>headersSent := True, statusCode := Some 500,
                       headers := headers res' @ [(js ''Content-Type'', js ''text/plain'')],
                       body := body res' @ [js ''Internal Server Error''], ended := True\<rparr>)
         \<and> (headersSent res' \<longrightarrow> fst (on_request account webhookHandler req res) = res')"
  using assms by (simp add: on_request_def webhook_catch_def writeHead_def end_with_def)

theorem webhook_rejection_500_witness:
  "on_request sample_account (\<lambda>(req :: unit) res. (Rejected (js ''boom''), res)) ()
      \<lparr>headersSent = False, statusCode = None, headers = [], body = [], ended = False\<rparr>
     = (\<lparr>headersSent = True, statusCode = Some 500,
         headers = [(js ''Content-Type'', js ''text/plain'')],
         body = [js ''Internal Server Error''], ended = True\<rparr>,
        [js ''[feishu:main] Webhook handler error: boom''])
   \<and> on_request sample_account (\<lambda>(req :: unit) res. (Rejected (js ''boom''), writeHead 200 [] res)) ()
      \<lparr>headersSent = False, statusCode = None, headers = [], body = [], ended = False\<rparr>
     = (\<lparr>headersSent = True, statusCode = Some 200, headers = [], body = [], ended = False\<rparr>,
        [js ''[feishu:main] Webhook handler error: boom''])"
proof -
  let ?fresh = "\<lparr>headersSent = False, statusCode = None, headers = [], body = [], ended = False\<rparr>"
  let ?h1 = "\<lambda>(req :: unit) res. (Rejected (js ''boom''), res)"
  let ?h2 = "\<lambda>(req :: unit) res. (Rejected (js ''boom''), writeHead 200 [] res)"
  have r1: "?h1 () ?fresh = (Rejected (js ''boom''), ?fresh)" by simp
  have r2: "?h2 () ?fresh = (Rejected (js ''boom''), writeHead 200 [] ?fresh)" by simp
  have t: "tag (accountId sample_account) @ js ''Webhook handler error: '' @ js ''boom''
             = js ''[feishu:main] Webhook handler error: boom''"
    by (simp add: tag_def sample_account_def js_def)
  have "on_request sample_account ?h1 () ?fresh
          = (fst (on_request sample_account ?h1 () ?fresh),
             snd (on_request sample_account ?h1 () ?fresh))"
    by simp
  also have "\<dots> = (\<lparr>headersSent = True, statusCode = Some 500,
         headers = [(js ''Content-Type'', js ''text/plain'')],
         body = [js ''Internal Server Error''], ended = True\<rparr>,
        [js ''[feishu:main] Webhook handler error: boom''])"
    using webhook_rejection_500 [of ?h1 "()" ?fresh "js ''boom''" ?fresh sample_account] r1 t
    by simp
  finally have a: "on_request sample_account ?h1 () ?fresh
       = (\<lparr>headersSent = True, statusCode = Some 500,
         headers = [(js ''Content-Type'', js ''text/plain'')],
         body = [js ''Internal Server Error''], ended = True\<rparr>,
        [js ''[feishu:main] Webhook handler error: boom''])" .
  have "on_request sample_account ?h2 () ?fresh
          = (fst (on_request sample_account ?h2 () ?fresh),
             snd (on_request sample_account ?h2 () ?fresh))"
    by simp
  also have "\<dots> = (\<lparr>headersSent = True, statusCode = Some 200, headers = [], body = [], ended = False\<rparr>,
        [js ''[feishu:main] Webhook handler error: boom''])"
    using webhook_rejection_500
            [of ?h2 "()" ?fresh "js ''boom''" "writeHead 200 [] ?fresh" sample_account] r2 t
    by (simp add: writeHead_def)
  finally have b: "on_request sample_account ?h2 () ?fresh
       = (\<lparr>headersSent = True, statusCode = Some 200, headers = [], body = [], ended = False\<rparr>,
        [js ''[feishu:main] Webhook handler error: boom''])" .
  from a b show ?thesis by blast
qed

section \<open>Deduplication\<close>

text \<open>
  C2. When the handler is invoked twice with events that carry the same message id,
  the second time with the dedup cache the first invocation left, the reply dispatcher is
  invoked at most once over the two invocations; and when the first event reached the
  dedup check (it has a chat id), the second invocation returns before the dispatch with
  no effect at all.
\<close>

theorem dedup_one_dispatch:
  assumes "message data1 = Some m1" and "message data2 = Some m2"
    and "message_id m1 = Some mid" and "message_id m2 = Some mid"
    and "handleIncomingMessage env data1 ctx seen sched1 = (c1, seen1, s1)"
    and "handleIncomingMessage env data2 ctx seen1 sched2 = (c2, seen2, s2)"
  shows "dispatches s1 + dispatches s2 \<le> 1
         \<and> (truthy (chat_id m1) \<longrightarrow> c2 = Resolved \<and> s2 = initial \<and> seen2 = seen1)"
proof -
  have d0: "dispatches initial = 0"
    by (simp add: dispatches_def initial_def)
  have b1: "dispatches s1 \<le> 1"
    using assms(5) by (rule dispatches_handle)
  have b2: "dispatches s2 \<le> 1"
    using assms(6) by (rule dispatches_handle)
  show ?thesis
  proof (cases "truthy (chat_id m1)")
    case False
    then have "s1 = initial"
      using assms(1,5)
      by (auto simp: handleIncomingMessage_def Let_def split: option.splits if_splits prod.splits)
    then show ?thesis using False b2 d0 by simp
  next
    case True
    then have mem: "mid \<in> set seen1"
      using assms(1,3,5)
      by (auto simp: handleIncomingMessage_def isDuplicate_def Let_def
               split: option.splits if_splits prod.splits)
    have "c2 = Resolved \<and> s2 = initial \<and> seen2 = seen1"
      using assms(2,4,6) mem
      by (auto simp: handleIncomingMessage_def isDuplicate_def Let_def
               split: option.splits if_splits prod.splits)
    then show ?thesis using True b1 d0 by simp
  qed
qed


theorem dedup_one_dispatch_witness:
  "dispatches (snd (snd (handleIncomingMessage accepting_env direct_message
        (handler_context sample_account False) []
        \<lparr>during = [Deliver (PString (js ''ok'')) ApiOk ApiOk], ending = DispatchResolves\<rparr>))) = 1
   \<and> handleIncomingMessage accepting_env direct_message (handler_context sample_account False)
        (fst (snd (handleIncomingMessage accepting_env direct_message
           (handler_context sample_account False) []
           \<lparr>during = [Deliver (PString (js ''ok'')) ApiOk ApiOk], ending = DispatchResolves\<rparr>)))
        \<lparr>during = [Deliver (PString (js ''ok'')) ApiOk ApiOk], ending = DispatchResolves\<rparr>
       = (Resolved, [js ''om_1''], initial)"
proof -
  let ?ctx = "handler_context sample_account False"
  let ?sched = "\<lparr>during = [Deliver (PString (js ''ok'')) ApiOk ApiOk], ending = DispatchResolves\<rparr>"
  let ?r1 = "handleIncomingMessage accepting_env direct_message ?ctx [] ?sched"
  let ?r2 = "handleIncomingMessage accepting_env direct_message ?ctx (fst (snd ?r1)) ?sched"
  let ?m = "\<lparr>chat_id = Some (js ''oc_1''), message_id = Some (js ''om_1''),
             message_type = Some (js ''text''), content = Some (Parsed (Some (js ''hi''))),
             chat_type = Some (js ''p2p''), mentions = (None :: unit list option)\<rparr>"
  have m: "message direct_message = Some ?m" by (simp add: direct_message_def)
  have i: "message_id ?m = Some (js ''om_1'')" by simp
  have c: "truthy (chat_id ?m)" by (simp add: js_def)
  have e1: "?r1 = (fst ?r1, fst (snd ?r1), snd (snd ?r1))" by simp
  have e2: "?r2 = (fst ?r2, fst (snd ?r2), snd (snd ?r2))" by simp
  have seen1: "fst (snd ?r1) = [js ''om_1'']"
    by (simp add: model_defs sample_defs callback_defs)
  have d1: "dispatches (snd (snd ?r1)) = 1"
    by (simp add: model_defs sample_defs callback_defs dispatches_def)
  from dedup_one_dispatch [OF m m i i e1 e2] c
  have "fst ?r2 = Resolved \<and> snd (snd ?r2) = initial \<and> fst (snd ?r2) = fst (snd ?r1)"
    by blast
  with seen1 have "?r2 = (Resolved, [js ''om_1''], initial)"
    by (metis e2)
  with d1 show ?thesis by simp
qed


section \<open>Skipped payloads\<close>

text \<open>
  What the skip branch does: for a payload whose reply text trims to the empty string,
  equals "NO_REPLY" or ends with "NO_REPLY", and that has no media URL, the deliver
  callback deletes the placeholder whose id is stored and makes no other call: no create,
  no update, no text, no media.
\<close>

lemma deliver_skip_sends_nothing:
  assumes "trim (replyText_of p) = [] \<or> trim (replyText_of p) = js ''NO_REPLY''
           \<or> endsWith (trim (replyText_of p)) (js ''NO_REPLY'')"
    and "\<not> truthy (mediaUrl_of p)"
  shows "effects (snd (deliver ctx chatId p r1 r2 s))
           = effects s @ (if placeholderId s \<noteq> []
                          then [Api (DeleteMessage (placeholderId s)) r1] else [])"
proof -
  from assms have "skip_reply (trim (replyText_of p)) (mediaUrl_of p)"
    by (simp add: skip_reply_def)
  then show ?thesis
    by (simp add: deliver_def Let_def finish_def api_def emit_def)
qed


lemma deliver_skip_sends_nothing_sample:
  "effects (snd (deliver (handler_context sample_account True) (js ''oc_1'')
       (PString (js ''NO_REPLY'')) ApiOk ApiOk (initial\<lparr>placeholderId := js ''om_ph''\<rparr>)))
     = [Api (DeleteMessage (js ''om_ph'')) ApiOk]
   \<and> effects (snd (deliver (handler_context sample_account True) (js ''oc_1'')
       (PObject \<lparr>p_text = Some (js ''  ''), p_body = Some (js ''unused''), p_mediaUrl = None,
                 p_mediaUrls = Some []\<rparr>) ApiOk ApiOk initial))
     = []
   \<and> effects (snd (deliver (handler_context sample_account True) (js ''oc_1'')
       (PString (js ''sure. NO_REPLY '')) ApiOk ApiOk initial))
     = []"
proof -
  let ?ctx = "handler_context sample_account True"
  let ?p1 = "PString (js ''NO_REPLY'')"
  let ?p2 = "PObject \<lparr>p_text = Some (js ''  ''), p_body = Some (js ''unused''), p_mediaUrl = None,
                 p_mediaUrls = Some []\<rparr>"
  let ?p3 = "PString (js ''sure. NO_REPLY '')"
  have h1: "trim (replyText_of ?p1) = [] \<or> trim (replyText_of ?p1) = js ''NO_REPLY''
           \<or> endsWith (trim (replyText_of ?p1)) (js ''NO_REPLY'')"
    by (simp add: trim_def js_def js_space_def)
  have h2: "trim (replyText_of ?p2) = [] \<or> trim (replyText_of ?p2) = js ''NO_REPLY''
           \<or> endsWith (trim (replyText_of ?p2)) (js ''NO_REPLY'')"
    by (simp add: trim_def js_def js_space_def)
  have h3: "trim (replyText_of ?p3) = [] \<or> trim (replyText_of ?p3) = js ''NO_REPLY''
           \<or> endsWith (trim (replyText_of ?p3)) (js ''NO_REPLY'')"
    by (simp add: trim_def js_def js_space_def endsWith_def suffix_to_prefix)
  have m1: "\<not> truthy (mediaUrl_of ?p1)" by simp
  have m2: "\<not> truthy (mediaUrl_of ?p2)" by simp
  have m3: "\<not> truthy (mediaUrl_of ?p3)" by simp
  from deliver_skip_sends_nothing [OF h1 m1, of ?ctx "js ''oc_1''" ApiOk ApiOk
         "initial\<lparr>placeholderId := js ''om_ph''\<rparr>"]
       deliver_skip_sends_nothing [OF h2 m2, of ?ctx "js ''oc_1''" ApiOk ApiOk initial]
       deliver_skip_sends_nothing [OF h3 m3, of ?ctx "js ''oc_1''" ApiOk ApiOk initial]
  show ?thesis by (simp add: initial_def js_def)
qed

text \<open>
  C5, at a concrete input. The claim: a payload that is "NO_REPLY" and has no media URL
  makes deliver delete the placeholder if one exists and send nothing. Here the timer
  fires and starts the create call; while the call is in flight "NO_REPLY" is delivered
  and, finding no placeholder id yet, deletes nothing; then the create call returns the
  id \<open>om_ph\<close>. Nothing is sent, as the claim says, but the placeholder exists and no
  delete of it is made, nor is one made afterwards.
\<close>

theorem skip_while_create_in_flight:
  "handleIncomingMessage accepting_env direct_message (handler_context sample_account False) []
     \<lparr>during = [Timer TimerFires, Deliver (PString (js ''NO_REPLY'')) ApiOk ApiOk,
                 Timer (CreateSettles (CreateReturns (Some (js ''om_ph''))))],
      ending = DispatchResolves\<rparr>
   = (Resolved, [js ''om_1''],
      \<lparr>placeholderId = js ''om_ph'', done_flag = True, timer = Finished,
       effects = [LogInfo (js ''[feishu:main] Received from ou_1: hi''),
                  DispatchReply \<lparr>Body = js ''hi'', From = js ''ou_1'', To = js ''oc_1'',
                    SessionKey = js ''feishu:ou_1'', AccountId = js ''main'',
                    MessageSid = Some (js ''om_1''), ChatType = js ''direct''\<rparr>,
                  CreatePlaceholder (js ''oc_1'')]\<rparr>)
   \<and> filter is_disposal (effects (later (js ''oc_1'') [TimerFires]
        (snd (snd (handleIncomingMessage accepting_env direct_message
           (handler_context sample_account False) []
           \<lparr>during = [Timer TimerFires, Deliver (PString (js ''NO_REPLY'')) ApiOk ApiOk,
                       Timer (CreateSettles (CreateReturns (Some (js ''om_ph''))))],
            ending = DispatchResolves\<rparr>))))) = []"
  by (simp add: model_defs sample_defs callback_defs)

section \<open>Dispatch errors\<close>

text \<open>
  What the error paths do: an error of the reply dispatch, reported through onError or
  thrown by the dispatch call, is logged and the placeholder whose id is stored is
  deleted. onError never throws; the handler's promise rejects only when the delete that
  the \<^verbatim>\<open>catch\<close> awaits fails, never with the dispatch error. Whatever the handler
  rejects with, the registered message handler logs it for the account and resolves.
\<close>

lemma dispatch_errors_logged:
  "effects (onError ctx err r s)
     = effects s @ LogError (tag (accountId (ctx_account ctx)) @ js ''Dispatcher error: '' @ err)
         # (if placeholderId s \<noteq> [] then [Api (DeleteMessage (placeholderId s)) r] else [])
   \<and> effects (snd (dispatch_catch ctx err r s))
     = effects s @ LogError (tag (accountId (ctx_account ctx)) @ js ''Dispatch error: '' @ err)
         # (if placeholderId s \<noteq> [] then [Api (DeleteMessage (placeholderId s)) r] else [])
   \<and> fst (dispatch_catch ctx err r s)
     = (if placeholderId s = [] then Resolved
        else case r of ApiOk \<Rightarrow> Resolved | ApiFails e \<Rightarrow> Rejected e)
   \<and> (dispatcherAvailable env \<and> ending sched = DispatchRejects err r
        \<longrightarrow> dispatch env ctx data msg chatId t sched
             = dispatch_catch ctx err r
                 (snd (dispatch env ctx data msg chatId t (sched\<lparr>ending := DispatchResolves\<rparr>))))
   \<and> (fst (handleIncomingMessage env data ctx seen sched) = Rejected e'
        \<longrightarrow> (\<exists>x. ending sched = DispatchRejects x (ApiFails e')))
   \<and> fst (messageHandler env account sink data seen sched) = Resolved
   \<and> (handleIncomingMessage env data (handler_context account sink) seen sched
          = (Rejected e', seen', s')
        \<longrightarrow> messageHandler env account sink data seen sched
             = (Resolved, seen',
                emit (LogError (tag (accountId account) @ js ''Message handler error: '' @ e')) s'))"
  using onError_effects [of ctx err r s] catch_effects [of ctx err r s]
    catch_completion [of ctx err r s] handle_rejected [of env data ctx seen sched e']
    messageHandler_resolves [of env account sink data seen sched]
    messageHandler_logs [of env data account sink seen sched e' seen' s']
    dispatch_throws [of env sched err r ctx data msg chatId t]
  by simp


lemma dispatch_errors_logged_sample:
  "messageHandler accepting_env sample_account False direct_message []
     \<lparr>during = [Timer TimerFires, Timer (CreateSettles (CreateReturns (Some (js ''om_ph''))))],
      ending = DispatchRejects (js ''boom'') (ApiFails (js ''gone''))\<rparr>
   = (Resolved, [js ''om_1''],
      \<lparr>placeholderId = js ''om_ph'', done_flag = True, timer = Finished,
       effects = [LogInfo (js ''[feishu:main] Received from ou_1: hi''),
                  DispatchReply \<lparr>Body = js ''hi'', From = js ''ou_1'', To = js ''oc_1'',
                    SessionKey = js ''feishu:ou_1'', AccountId = js ''main'',
                    MessageSid = Some (js ''om_1''), ChatType = js ''direct''\<rparr>,
                  CreatePlaceholder (js ''oc_1''),
                  LogError (js ''[feishu:main] Dispatch error: boom''),
                  Api (DeleteMessage (js ''om_ph'')) (ApiFails (js ''gone'')),
                  LogError (js ''[feishu:main] Message handler error: gone'')]\<rparr>)
   \<and> effects (onError (handler_context sample_account False) (js ''boom'') ApiOk
        (initial\<lparr>placeholderId := js ''om_ph''\<rparr>))
     = [LogError (js ''[feishu:main] Dispatcher error: boom''),
        Api (DeleteMessage (js ''om_ph'')) ApiOk]"
proof -
  let ?ctx = "handler_context sample_account False"
  let ?sched = "\<lparr>during = [Timer TimerFires,
                             Timer (CreateSettles (CreateReturns (Some (js ''om_ph''))))],
                  ending = DispatchRejects (js ''boom'') (ApiFails (js ''gone''))\<rparr>"
  let ?s = "\<lparr>placeholderId = js ''om_ph'', done_flag = True, timer = Finished,
       effects = [LogInfo (js ''[feishu:main] Received from ou_1: hi''),
                  DispatchReply \<lparr>Body = js ''hi'', From = js ''ou_1'', To = js ''oc_1'',
                    SessionKey = js ''feishu:ou_1'', AccountId = js ''main'',
                    MessageSid = Some (js ''om_1''), ChatType = js ''direct''\<rparr>,
                  CreatePlaceholder (js ''oc_1''),
                  LogError (js ''[feishu:main] Dispatch error: boom''),
                  Api (DeleteMessage (js ''om_ph'')) (ApiFails (js ''gone''))]\<rparr>"
  have h: "handleIncomingMessage accepting_env direct_message ?ctx [] ?sched
             = (Rejected (js ''gone''), [js ''om_1''], ?s)"
    by (simp add: model_defs sample_defs callback_defs)
  have t: "tag (accountId sample_account) @ js ''Message handler error: '' @ js ''gone''
             = js ''[feishu:main] Message handler error: gone''"
          "tag (accountId (ctx_account ?ctx)) @ js ''Dispatcher error: '' @ js ''boom''
             = js ''[feishu:main] Dispatcher error: boom''"
    by (simp_all add: tag_def sample_account_def handler_context_def js_def)
  from dispatch_errors_logged [of ?ctx "js ''boom''" ApiOk "initial\<lparr>placeholderId := js ''om_ph''\<rparr>"
         accepting_env ?sched direct_message _ _ _ "[]" "js ''gone''" sample_account False
         "[js ''om_1'']" ?s] h t
  show ?thesis by (simp add: emit_def initial_def js_def)
qed

text \<open>
  C6, at a concrete input. The claim: on every dispatch error, reported through onError or
  thrown, the handler deletes any pending placeholder and logs the error. Here the timer
  fires and starts the create call; while the call is in flight the dispatcher reports
  "boom" through onError, or the dispatch call throws "boom"; the error is logged and,
  no placeholder id being stored yet, nothing is deleted; then the create call returns
  the id \<open>om_ph\<close>. The placeholder exists and no delete of it is made. The message
  handler resolves in both cases, as the claim says.
\<close>

theorem error_while_create_in_flight:
  "handleIncomingMessage accepting_env direct_message (handler_context sample_account False) []
     \<lparr>during = [Timer TimerFires, OnError (js ''boom'') ApiOk,
                 Timer (CreateSettles (CreateReturns (Some (js ''om_ph''))))],
      ending = DispatchResolves\<rparr>
   = (Resolved, [js ''om_1''],
      \<lparr>placeholderId = js ''om_ph'', done_flag = True, timer = Finished,
       effects = [LogInfo (js ''[feishu:main] Received from ou_1: hi''),
                  DispatchReply \<lparr>Body = js ''hi'', From = js ''ou_1'', To = js ''oc_1'',
                    SessionKey = js ''feishu:ou_1'', AccountId = js ''main'',
                    MessageSid = Some (js ''om_1''), ChatType = js ''direct''\<rparr>,
                  CreatePlaceholder (js ''oc_1''),
                  LogError (js ''[feishu:main] Dispatcher error: boom'')]\<rparr>)
   \<and> later (js ''oc_1'') [CreateSettles (CreateReturns (Some (js ''om_ph'')))]
        (snd (snd (messageHandler accepting_env sample_account False direct_message []
           \<lparr>during = [Timer TimerFires], ending = DispatchRejects (js ''boom'') ApiOk\<rparr>)))
     = \<lparr>placeholderId = js ''om_ph'', done_flag = True, timer = Finished,
        effects = [LogInfo (js ''[feishu:main] Received from ou_1: hi''),
                   DispatchReply \<lparr>Body = js ''hi'', From = js ''ou_1'', To = js ''oc_1'',
                     SessionKey = js ''feishu:ou_1'', AccountId = js ''main'',
                     MessageSid = Some (js ''om_1''), ChatType = js ''direct''\<rparr>,
                   CreatePlaceholder (js ''oc_1''),
                   LogError (js ''[feishu:main] Dispatch error: boom'')]\<rparr>"
  by (simp add: model_defs sample_defs callback_defs)

section \<open>A threshold that is not positive\<close>

text \<open>
  C10. When the account's thinkingThresholdMs is zero or negative, no timer is scheduled
  and no placeholder is ever created, updated or deleted, also after the handler has
  returned; the platform calls of a dispatch are exactly the direct sends of the delivered
  replies, one text or media send for each payload that is not skipped.
\<close>

theorem no_placeholder_without_threshold:
  assumes "thinkingThresholdMs (config account) = Some ms" and "ms \<le> 0"
  shows "timer (later chatId tevs (snd (snd (handleIncomingMessage env data
            (handler_context account sink) seen sched)))) = NoTimer
         \<and> filter is_placeholder_call
             (effects (later chatId tevs (snd (snd (handleIncomingMessage env data
                (handler_context account sink) seen sched))))) = []
         \<and> calls (snd (dispatch env (handler_context account sink) data msg chatId t sched))
             = (if dispatcherAvailable env then concat (map (direct_send chatId) (during sched))
                else [])"
proof -
  from assms have c: "ctx_thinkingThresholdMs (handler_context account sink) \<le> 0"
    by (simp add: handler_context_def)
  have d: "calls (snd (dispatch env (handler_context account sink) data msg chatId t sched))
             = (if dispatcherAvailable env then concat (map (direct_send chatId) (during sched))
                else [])"
    using dispatch_no_timer [OF c] by blast
  from handle_no_timer [OF c, of env data seen sched] d
  show ?thesis by (simp add: later_no_timer)
qed

theorem no_placeholder_without_threshold_witness:
  "timer (later (js ''oc_1'') [TimerFires]
      (snd (snd (handleIncomingMessage accepting_env direct_message
         (handler_context (sample_account\<lparr>config := sample_config\<lparr>thinkingThresholdMs := Some 0\<rparr>\<rparr>)
            False) []
         \<lparr>during = [Timer TimerFires, Deliver (PString (js ''ok'')) ApiOk ApiOk],
          ending = DispatchResolves\<rparr>)))) = NoTimer
   \<and> filter is_placeholder_call (effects (later (js ''oc_1'') [TimerFires]
      (snd (snd (handleIncomingMessage accepting_env direct_message
         (handler_context (sample_account\<lparr>config := sample_config\<lparr>thinkingThresholdMs := Some 0\<rparr>\<rparr>)
            False) []
         \<lparr>during = [Timer TimerFires, Deliver (PString (js ''ok'')) ApiOk ApiOk],
          ending = DispatchResolves\<rparr>))))) = []
   \<and> calls (snd (dispatch accepting_env
         (handler_context (sample_account\<lparr>config := sample_config\<lparr>thinkingThresholdMs := Some 0\<rparr>\<rparr>)
            False)
         direct_message
         \<lparr>chat_id = Some (js ''oc_1''), message_id = Some (js ''om_1''),
          message_type = Some (js ''text''), content = Some (Parsed (Some (js ''hi''))),
          chat_type = Some (js ''p2p''), mentions = None\<rparr>
         (js ''oc_1'') (js ''hi'')
         \<lparr>during = [Timer TimerFires, Deliver (PString (js ''ok'')) ApiOk ApiOk],
          ending = DispatchResolves\<rparr>))
       = [Api (SendText (js ''oc_1'') (js ''ok'')) ApiOk]"
proof -
  let ?acc = "sample_account\<lparr>config := sample_config\<lparr>thinkingThresholdMs := Some 0\<rparr>\<rparr>"
  have h: "thinkingThresholdMs (config ?acc) = Some 0" by simp
  have z: "(0::int) \<le> 0" by simp
  have d: "concat (map (direct_send (js ''oc_1''))
             [Timer TimerFires, Deliver (PString (js ''ok'')) ApiOk ApiOk])
           = [Api (SendText (js ''oc_1'') (js ''ok'')) ApiOk]"
    by (simp add: skip_reply_def trim_def js_def js_space_def endsWith_def suffix_to_prefix)
  from no_placeholder_without_threshold [OF h z, of "js ''oc_1''" "[TimerFires]" accepting_env
         direct_message False "[]"
         "\<lparr>during = [Timer TimerFires, Deliver (PString (js ''ok'')) ApiOk ApiOk],
           ending = DispatchResolves\<rparr>"
         "\<lparr>chat_id = Some (js ''oc_1''), message_id = Some (js ''om_1''),
          message_type = Some (js ''text''), content = Some (Parsed (Some (js ''hi''))),
          chat_type = Some (js ''p2p''), mentions = None\<rparr>" "js ''hi''"] d
  show ?thesis by (simp add: accepting_env_def)
qed

section \<open>The race between the timer and the reply\<close>

text \<open>
  With a positive threshold the dispatcher and its callbacks run from a state in which the
  timer is waiting, the completion flag is unset and no placeholder is known; the facts
  of this section are stated for such a state.
\<close>

lemma dispatch_starts_armed:
  assumes "dispatcherAvailable env" and "0 < ctx_thinkingThresholdMs ctx"
  shows "\<exists>s0. dispatch env ctx data msg chatId t sched
                 = (case ending sched of
                      DispatchResolves \<Rightarrow> (Resolved, run ctx chatId (during sched) s0)
                    | DispatchRejects err r \<Rightarrow>
                        dispatch_catch ctx err r (run ctx chatId (during sched) s0))
              \<and> timer s0 = Armed \<and> \<not> done_flag s0 \<and> placeholderId s0 = []
              \<and> creates s0 = [] \<and> calls s0 = []"
  unfolding dispatch_def Let_def
  using assms
  apply (simp split del: if_split)
  apply (rule exI, rule conjI, rule refl)
  apply (simp add: creates_def calls_def status_def emit_def initial_def)
  done

text \<open>
  C4, as stated, at a concrete input. The claim: when the reply arrives only after the
  threshold, the placeholder is created first and then updated (text reply). Here the
  timer fires, the create call fails (the callback ignores the failure by design), and
  the text reply arrives afterwards: it is sent as a new message and no update or delete
  is made.
\<close>

theorem late_reply_after_failed_create:
  "effects (snd (snd (handleIncomingMessage accepting_env direct_message
       (handler_context sample_account False) []
       \<lparr>during = [Timer TimerFires, Timer (CreateSettles CreateThrows),
                   Deliver (PString (js ''ok'')) ApiOk ApiOk],
        ending = DispatchResolves\<rparr>)))
     = [LogInfo (js ''[feishu:main] Received from ou_1: hi''),
        DispatchReply \<lparr>Body = js ''hi'', From = js ''ou_1'', To = js ''oc_1'',
          SessionKey = js ''feishu:ou_1'', AccountId = js ''main'',
          MessageSid = Some (js ''om_1''), ChatType = js ''direct''\<rparr>,
        CreatePlaceholder (js ''oc_1''),
        Api (SendText (js ''oc_1'') (js ''ok'')) ApiOk]
   \<and> filter is_disposal (effects (snd (snd (handleIncomingMessage accepting_env direct_message
       (handler_context sample_account False) []
       \<lparr>during = [Timer TimerFires, Timer (CreateSettles CreateThrows),
                   Deliver (PString (js ''ok'')) ApiOk ApiOk],
        ending = DispatchResolves\<rparr>)))) = []"
  by (simp add: model_defs sample_defs callback_defs)

text \<open>
  C4, as amended. From the state in which the timer is scheduled:
  when a reply callback (deliver or onError) or the \<^verbatim>\<open>catch\<close> runs before the timer
  fires, no placeholder is ever created, whatever happens afterwards;
  when the timer fires first and the create call has returned a message id before the
  reply callback runs, the placeholder is created first and the reply then updates it
  (text) or deletes it (media, skipped payload, onError, thrown error);
  when the create call has failed by then, the reply is sent directly and nothing is
  updated or deleted;
  and once the completion flag is set no create is started any more.
\<close>

theorem placeholder_lifecycle:
  assumes "timer s = Armed" and "\<not> done_flag s" and "placeholderId s = []"
  shows "(Timer TimerFires \<notin> set pre \<and> is_reply e
            \<longrightarrow> creates (later chatId tevs (run ctx chatId (pre @ e # es) s)) = creates s)
         \<and> (Timer TimerFires \<notin> set pre
            \<longrightarrow> creates (later chatId tevs (snd (dispatch_catch ctx err r (run ctx chatId pre s))))
                  = creates s)
         \<and> (i \<noteq> [] \<and> is_reply e
            \<longrightarrow> calls (step ctx chatId e
                   (run ctx chatId
                      [Timer TimerFires, Timer (CreateSettles (CreateReturns (Some i)))] s))
                  = calls s @ CreatePlaceholder chatId # settles chatId i e)
         \<and> (i \<noteq> []
            \<longrightarrow> calls (snd (dispatch_catch ctx err r
                   (run ctx chatId
                      [Timer TimerFires, Timer (CreateSettles (CreateReturns (Some i)))] s)))
                  = calls s @ [CreatePlaceholder chatId, Api (DeleteMessage i) r])
         \<and> (is_reply e
            \<longrightarrow> calls (step ctx chatId e
                   (run ctx chatId [Timer TimerFires, Timer (CreateSettles CreateThrows)] s))
                  = calls s @ CreatePlaceholder chatId # direct_send chatId e)
         \<and> (done_flag s' \<longrightarrow> creates (later chatId tevs (run ctx chatId es s')) = creates s')"
proof -
  let ?s1 = "s\<lparr>placeholderId := i, timer := Finished,
                effects := effects s @ [CreatePlaceholder chatId]\<rparr>"
  let ?s2 = "s\<lparr>timer := Finished, effects := effects s @ [CreatePlaceholder chatId]\<rparr>"
  have c: "run ctx chatId [Timer TimerFires, Timer (CreateSettles (CreateReturns (Some i)))] s = ?s1"
    using assms(1,2) by (rule placeholder_created)
  have f: "run ctx chatId [Timer TimerFires, Timer (CreateSettles CreateThrows)] s = ?s2"
    using assms by (rule create_failed)
  have p: "placeholderId ?s1 = i" by simp
  have q: "placeholderId ?s2 = []" using assms(3) by simp
  have k: "calls ?s1 = calls s @ [CreatePlaceholder chatId]"
    "calls ?s2 = calls s @ [CreatePlaceholder chatId]"
    by (simp_all add: calls_def)
  show ?thesis
    unfolding c f
    using reply_settles [OF p, of e ctx chatId] throw_settles [OF p, of ctx err r]
      reply_direct [OF q, of e ctx chatId] k
    by (simp add: reply_first_no_create throw_first_no_create done_no_create)
qed



theorem placeholder_lifecycle_witness:
  "creates (later (js ''oc_1'') [TimerFires]
      (run (handler_context sample_account False) (js ''oc_1'')
         ([] @ Deliver (PString (js ''ok'')) ApiOk ApiOk # [Timer TimerFires]) armed)) = []
   \<and> calls (step (handler_context sample_account False) (js ''oc_1'')
        (Deliver (PString (js ''ok'')) ApiOk ApiOk)
        (run (handler_context sample_account False) (js ''oc_1'')
           [Timer TimerFires, Timer (CreateSettles (CreateReturns (Some (js ''om_ph''))))] armed))
      = [CreatePlaceholder (js ''oc_1''), Api (UpdateMessage (js ''om_ph'') (js ''ok'')) ApiOk]
   \<and> calls (step (handler_context sample_account False) (js ''oc_1'')
        (Deliver (PObject \<lparr>p_text = Some (js ''see''), p_body = None,
                          p_mediaUrl = Some (js ''http://x/a.png''), p_mediaUrls = None\<rparr>)
                 ApiOk ApiOk)
        (run (handler_context sample_account False) (js ''oc_1'')
           [Timer TimerFires, Timer (CreateSettles (CreateReturns (Some (js ''om_ph''))))] armed))
      = [CreatePlaceholder (js ''oc_1''), Api (DeleteMessage (js ''om_ph'')) ApiOk,
         Api (SendMedia (js ''oc_1'') (js ''http://x/a.png'') (js ''see'')) ApiOk]
   \<and> calls (snd (dispatch_catch (handler_context sample_account False) (js ''boom'') ApiOk
        (run (handler_context sample_account False) (js ''oc_1'')
           [Timer TimerFires, Timer (CreateSettles (CreateReturns (Some (js ''om_ph''))))] armed)))
      = [CreatePlaceholder (js ''oc_1''), Api (DeleteMessage (js ''om_ph'')) ApiOk]
   \<and> calls (step (handler_context sample_account False) (js ''oc_1'')
        (Deliver (PString (js ''ok'')) ApiOk ApiOk)
        (run (handler_context sample_account False) (js ''oc_1'')
           [Timer TimerFires, Timer (CreateSettles CreateThrows)] armed))
      = [CreatePlaceholder (js ''oc_1''), Api (SendText (js ''oc_1'') (js ''ok'')) ApiOk]"
proof -
  let ?ctx = "handler_context sample_account False"
  let ?text = "Deliver (PString (js ''ok'')) ApiOk ApiOk"
  let ?media = "Deliver (PObject \<lparr>p_text = Some (js ''see''), p_body = None,
                          p_mediaUrl = Some (js ''http://x/a.png''), p_mediaUrls = None\<rparr>)
                 ApiOk ApiOk"
  have a: "timer armed = Armed" "\<not> done_flag armed" "placeholderId armed = []"
    by (simp_all add: armed_def initial_def)
  have c: "creates armed = []" "calls armed = []"
    by (simp_all add: creates_def calls_def armed_def initial_def)
  have i: "js ''om_ph'' \<noteq> []" by (simp add: js_def)
  have s1: "settles (js ''oc_1'') (js ''om_ph'') ?text
              = [Api (UpdateMessage (js ''om_ph'') (js ''ok'')) ApiOk]"
    by (simp add: skip_reply_def trim_def js_def js_space_def endsWith_def suffix_to_prefix)
  have s2: "settles (js ''oc_1'') (js ''om_ph'') ?media
              = [Api (DeleteMessage (js ''om_ph'')) ApiOk,
                 Api (SendMedia (js ''oc_1'') (js ''http://x/a.png'') (js ''see'')) ApiOk]"
    by (simp add: skip_reply_def trim_def js_def js_space_def endsWith_def suffix_to_prefix)
  have s3: "direct_send (js ''oc_1'') ?text = [Api (SendText (js ''oc_1'') (js ''ok'')) ApiOk]"
    by (simp add: skip_reply_def trim_def js_def js_space_def endsWith_def suffix_to_prefix)
  from placeholder_lifecycle [OF a, where pre = "[]" and e = ?text and es = "[Timer TimerFires]"
         and tevs = "[TimerFires]" and chatId = "js ''oc_1''" and ctx = ?ctx
         and i = "js ''om_ph''" and err = "js ''boom''" and r = ApiOk and s' = "finish armed"]
       placeholder_lifecycle [OF a, where pre = "[]" and e = ?media and es = "[]"
         and tevs = "[]" and chatId = "js ''oc_1''" and ctx = ?ctx
         and i = "js ''om_ph''" and err = "js ''boom''" and r = ApiOk and s' = "finish armed"]
       c i s1 s2 s3
  show ?thesis by simp
qed

section \<open>A placeholder that is never disposed of\<close>

lemma failed_update_only_logged:
  "handleIncomingMessage accepting_env direct_message (handler_context sample_account False) []
     \<lparr>during = [Timer TimerFires, Timer (CreateSettles (CreateReturns (Some (js ''om_ph'')))),
                 Deliver (PString (js ''ok'')) (ApiFails (js ''boom'')) ApiOk],
      ending = DispatchResolves\<rparr>
   = (Resolved, [js ''om_1''],
      \<lparr>placeholderId = js ''om_ph'', done_flag = True, timer = Finished,
       effects = [LogInfo (js ''[feishu:main] Received from ou_1: hi''),
                  DispatchReply \<lparr>Body = js ''hi'', From = js ''ou_1'', To = js ''oc_1'',
                    SessionKey = js ''feishu:ou_1'', AccountId = js ''main'',
                    MessageSid = Some (js ''om_1''), ChatType = js ''direct''\<rparr>,
                  CreatePlaceholder (js ''oc_1''),
                  Api (UpdateMessage (js ''om_ph'') (js ''ok'')) (ApiFails (js ''boom'')),
                  LogError (js ''[feishu:main] Failed to send reply: boom'')]\<rparr>)"
  by (simp add: model_defs sample_defs callback_defs)

lemma finished_stays: "timer s = Finished \<Longrightarrow> later chatId tevs s = s"
proof (induction tevs)
  case Nil
  then show ?case by simp
next
  case (Cons e tevs)
  then have "timer_step chatId e s = s"
    by (cases e) (simp_all add: timer_fires_def create_settles_def)
  with Cons show ?case by simp
qed

text \<open>
  C1, at a concrete input. The claim: a placeholder, once created, is updated or deleted
  on every control path. Here the timer fires and starts the create call; while the call
  is in flight the text reply is delivered and, finding no placeholder id yet, is sent as
  a new message; then the create call returns the id \<open>om_ph\<close>, which is stored. The
  handler returns with the placeholder created and its id known, all calls have
  succeeded, and no update or delete of it has been made, nor is one made afterwards.
\<close>

theorem placeholder_orphaned_by_race:
  "handleIncomingMessage accepting_env direct_message (handler_context sample_account False) []
     \<lparr>during = [Timer TimerFires, Deliver (PString (js ''ok'')) ApiOk ApiOk,
                 Timer (CreateSettles (CreateReturns (Some (js ''om_ph''))))],
      ending = DispatchResolves\<rparr>
   = (Resolved, [js ''om_1''],
      \<lparr>placeholderId = js ''om_ph'', done_flag = True, timer = Finished,
       effects = [LogInfo (js ''[feishu:main] Received from ou_1: hi''),
                  DispatchReply \<lparr>Body = js ''hi'', From = js ''ou_1'', To = js ''oc_1'',
                    SessionKey = js ''feishu:ou_1'', AccountId = js ''main'',
                    MessageSid = Some (js ''om_1''), ChatType = js ''direct''\<rparr>,
                  CreatePlaceholder (js ''oc_1''),
                  Api (SendText (js ''oc_1'') (js ''ok'')) ApiOk]\<rparr>)
   \<and> filter is_disposal (effects (later (js ''oc_1'') [TimerFires]
        (snd (snd (handleIncomingMessage accepting_env direct_message
           (handler_context sample_account False) []
           \<lparr>during = [Timer TimerFires, Deliver (PString (js ''ok'')) ApiOk ApiOk,
                       Timer (CreateSettles (CreateReturns (Some (js ''om_ph''))))],
            ending = DispatchResolves\<rparr>))))) = []"
  by (simp add: model_defs sample_defs callback_defs)

section \<open>The group filter and the group configuration\<close>

text \<open>
  C3, at a concrete input. The claim: a group message that the filter rejects is dropped
  unless the configuration of the group sets requireMention to false, in which case it is
  dispatched. Here the filter rejects the message, the account sets requireMention to
  false both for the group \<open>oc_g\<close> and as its default, and the handler still returns
  before the dispatch with no effect: it never reads the group configuration.
\<close>

theorem group_message_dropped_despite_config:
  "handleIncomingMessage rejecting_env group_message
     (handler_context
        (sample_account\<lparr>config := sample_config
           \<lparr>groups := Some [(js ''oc_g'', \<lparr>group_requireMention = Some False\<rparr>)],
            requireMention := Some False\<rparr>\<rparr>) False) []
     \<lparr>during = [Deliver (PString (js ''ok'')) ApiOk ApiOk], ending = DispatchResolves\<rparr>
   = (Resolved, [js ''om_2''], initial)"
  by (simp add: model_defs sample_defs callback_defs)

end
